theory Spec2Isabelle
  imports Complex_Main
begin

section \<open>JavaScript values\<close>

text \<open>
  A JavaScript \<^verbatim>\<open>number\<close> is modelled as an exact rational or one of the three
  non-finite values. Rounding error of IEEE doubles and the sign of zero are not modelled:
  every finite result is the exact one.
\<close>

datatype jsnum = Num rat | NaN | PosInf | NegInf

fun js_neg :: "jsnum \<Rightarrow> jsnum" where
  "js_neg (Num a) = Num (- a)"
| "js_neg NaN = NaN"
| "js_neg PosInf = NegInf"
| "js_neg NegInf = PosInf"

fun js_add :: "jsnum \<Rightarrow> jsnum \<Rightarrow> jsnum" where
  "js_add (Num a) (Num b) = Num (a + b)"
| "js_add NaN y = NaN"
| "js_add x NaN = NaN"
| "js_add PosInf NegInf = NaN"
| "js_add NegInf PosInf = NaN"
| "js_add PosInf y = PosInf"
| "js_add NegInf y = NegInf"
| "js_add (Num a) y = y"

definition js_sub :: "jsnum \<Rightarrow> jsnum \<Rightarrow> jsnum" where
  "js_sub x y = js_add x (js_neg y)"

fun js_sign_inf :: "bool \<Rightarrow> jsnum" where
  "js_sign_inf True = PosInf"
| "js_sign_inf False = NegInf"

fun js_mul :: "jsnum \<Rightarrow> jsnum \<Rightarrow> jsnum" where
  "js_mul (Num a) (Num b) = Num (a * b)"
| "js_mul NaN y = NaN"
| "js_mul x NaN = NaN"
| "js_mul PosInf PosInf = PosInf"
| "js_mul PosInf NegInf = NegInf"
| "js_mul NegInf PosInf = NegInf"
| "js_mul NegInf NegInf = PosInf"
| "js_mul PosInf (Num b) = (if b = 0 then NaN else js_sign_inf (0 < b))"
| "js_mul NegInf (Num b) = (if b = 0 then NaN else js_sign_inf (b < 0))"
| "js_mul (Num a) PosInf = (if a = 0 then NaN else js_sign_inf (0 < a))"
| "js_mul (Num a) NegInf = (if a = 0 then NaN else js_sign_inf (a < 0))"

fun js_div :: "jsnum \<Rightarrow> jsnum \<Rightarrow> jsnum" where
  "js_div (Num a) (Num b) =
     (if b = 0 then (if a = 0 then NaN else js_sign_inf (0 < a)) else Num (a / b))"
| "js_div NaN y = NaN"
| "js_div x NaN = NaN"
| "js_div (Num a) y = Num 0"
| "js_div PosInf (Num b) = js_sign_inf (0 \<le> b)"
| "js_div NegInf (Num b) = js_sign_inf (b < 0)"
| "js_div x y = NaN"

text \<open>\<^verbatim>\<open>Math.round\<close> rounds to the nearest integer, a half towards plus infinity;
  \<^verbatim>\<open>Math.ceil\<close> rounds up. Both leave a non-finite argument as it is.\<close>

fun Math_round :: "jsnum \<Rightarrow> jsnum" where
  "Math_round (Num a) = Num (of_int \<lfloor>a + 1 / 2\<rfloor>)"
| "Math_round x = x"

fun Math_ceil :: "jsnum \<Rightarrow> jsnum" where
  "Math_ceil (Num a) = Num (of_int \<lceil>a\<rceil>)"
| "Math_ceil x = x"

text \<open>Truthiness of a number: zero and NaN are falsy.\<close>

fun truthy_num :: "jsnum \<Rightarrow> bool" where
  "truthy_num (Num a) = (a \<noteq> 0)"
| "truthy_num NaN = False"
| "truthy_num x = True"

text \<open>\<^verbatim>\<open>x || d\<close> for an optional number \<open>x\<close> (\<open>None\<close> is \<^verbatim>\<open>undefined\<close>).\<close>

fun num_or :: "jsnum option \<Rightarrow> jsnum \<Rightarrow> jsnum" where
  "num_or None d = d"
| "num_or (Some x) d = (if truthy_num x then x else d)"

text \<open>
  A string is the list of its UTF-16 code units. \<open>ascii\<close> embeds an ASCII literal.
\<close>

type_synonym jsstring = "nat list"

definition ascii :: "string \<Rightarrow> jsstring" where
  "ascii s = map of_char s"

section \<open>Plain objects used as dictionaries\<close>

text \<open>
  An object literal and \<^verbatim>\<open>{}\<close> inherit from \<^verbatim>\<open>Object.prototype\<close>. Reading
  \<^verbatim>\<open>obj[key]\<close> gives the object's own property when it has one of that name;
  otherwise, for the names below, the inherited property: a function, or for
  \<^verbatim>\<open>__proto__\<close> the prototype object itself. Such a value is truthy, is not a number,
  and converts to \<open>NaN\<close> as an operand of \<^verbatim>\<open>*\<close>. For any other name the read gives
  \<^verbatim>\<open>undefined\<close>. Assigning a string to \<^verbatim>\<open>obj['__proto__']\<close> runs the inherited
  setter, which ignores it: no property is stored.
\<close>

definition proto_key :: jsstring where
  "proto_key = ascii ''__proto__''"

definition inherited_keys :: "jsstring list" where
  "inherited_keys =
     [ascii ''constructor'', ascii ''__defineGetter__'', ascii ''__defineSetter__'',
      ascii ''hasOwnProperty'', ascii ''__lookupGetter__'', ascii ''__lookupSetter__'',
      ascii ''isPrototypeOf'', ascii ''propertyIsEnumerable'', ascii ''toString'',
      ascii ''valueOf'', proto_key, ascii ''toLocaleString'']"

datatype property = Own jsnum | Inherited | Missing

definition read_literal :: "(jsstring \<times> jsnum) list \<Rightarrow> jsstring \<Rightarrow> property" where
  "read_literal obj k =
     (case map_of obj k of
        Some v \<Rightarrow> Own v
      | None \<Rightarrow> (if k \<in> set inherited_keys then Inherited else Missing))"

text \<open>\<^verbatim>\<open>x || d\<close> on what was read, and the number that \<^verbatim>\<open>*\<close> makes of it.\<close>

fun or_default :: "property \<Rightarrow> jsnum \<Rightarrow> property" where
  "or_default (Own v) d = (if truthy_num v then Own v else Own d)"
| "or_default Inherited d = Inherited"
| "or_default Missing d = Own d"

fun ToNumber :: "property \<Rightarrow> jsnum" where
  "ToNumber (Own v) = v"
| "ToNumber Inherited = NaN"
| "ToNumber Missing = NaN"

section \<open>Installation fee\<close>

text \<open>
  The two object literals of \<^verbatim>\<open>getInstallationPrice\<close>, by their own properties. The
  municipality keys are the code units of the Arabic names of Misrata, Tripoli,
  Benghazi, Zliten and Abu Salim.
\<close>

definition installationPrices :: "(jsstring \<times> jsnum) list" where
  "installationPrices =
     [(ascii ''13x5'', Num 1500),
      (ascii ''12x4'', Num 1200),
      (ascii ''10x4'', Num 1000),
      (ascii ''8x3'', Num 800),
      (ascii ''6x3'', Num 600),
      (ascii ''4x3'', Num 500)]"

definition misrata :: jsstring where
  "misrata = [0x645, 0x635, 0x631, 0x627, 0x62A, 0x629]"

definition tripoli :: jsstring where
  "tripoli = [0x637, 0x631, 0x627, 0x628, 0x644, 0x633]"

definition benghazi :: jsstring where
  "benghazi = [0x628, 0x646, 0x63A, 0x627, 0x632, 0x64A]"

definition zliten :: jsstring where
  "zliten = [0x632, 0x644, 0x64A, 0x62A, 0x646]"

definition abu_salim :: jsstring where
  "abu_salim = [0x623, 0x628, 0x648, 0x20, 0x633, 0x644, 0x64A, 0x645]"

definition municipalityMultipliers :: "(jsstring \<times> jsnum) list" where
  "municipalityMultipliers =
     [(misrata, Num 1),
      (tripoli, Num (11 / 10)),
      (benghazi, Num (12 / 10)),
      (zliten, Num (9 / 10)),
      (abu_salim, Num (11 / 10))]"

definition getInstallationPrice :: "jsstring \<Rightarrow> jsstring \<Rightarrow> jsnum" where
  "getInstallationPrice sz municipality =
     (let basePrice = or_default (read_literal installationPrices sz) (Num 500);
          multiplier = or_default (read_literal municipalityMultipliers municipality) (Num 1)
      in Math_round (js_mul (ToNumber basePrice) (ToNumber multiplier)))"


section \<open>Data model\<close>

text \<open>
  A property value of a row object. A \<^verbatim>\<open>PricingRow\<close> is a plain object, read
  from the backend as JSON or built key by key from a CSV line, so it is modelled as a
  finite map from property names to values; reading a missing property gives
  \<^verbatim>\<open>undefined\<close>. The code reads a row only under the fixed names below, none
  of which names an inherited property.
\<close>

datatype jsval = JUndefined | JNull | JNum jsnum | JStr jsstring

type_synonym PricingRow = "jsstring \<rightharpoonup> jsval"

definition get :: "PricingRow \<Rightarrow> jsstring \<Rightarrow> jsval" where
  "get r k = (case r k of None \<Rightarrow> JUndefined | Some v \<Rightarrow> v)"

text \<open>
  The property names of \<^verbatim>\<open>PricingRow\<close>: the Arabic words for size, level and
  customer, for one month, 2 months, 3 months, 6 months, a full year and one day, and
  \<^verbatim>\<open>id\<close>.
\<close>

definition key_size :: jsstring where
  "key_size = [0x627, 0x644, 0x645, 0x642, 0x627, 0x633]"

definition key_level :: jsstring where
  "key_level = [0x627, 0x644, 0x645, 0x633, 0x62A, 0x648, 0x649]"

definition key_customer :: jsstring where
  "key_customer = [0x627, 0x644, 0x632, 0x628, 0x648, 0x646]"

definition key_oneMonth :: jsstring where
  "key_oneMonth = [0x634, 0x647, 0x631, 0x20, 0x648, 0x627, 0x62D, 0x62F]"

definition key_twoMonths :: jsstring where
  "key_twoMonths = [0x32, 0x20, 0x623, 0x634, 0x647, 0x631]"

definition key_threeMonths :: jsstring where
  "key_threeMonths = [0x33, 0x20, 0x623, 0x634, 0x647, 0x631]"

definition key_sixMonths :: jsstring where
  "key_sixMonths = [0x36, 0x20, 0x623, 0x634, 0x647, 0x631]"

definition key_oneYear :: jsstring where
  "key_oneYear = [0x633, 0x646, 0x629, 0x20, 0x643, 0x627, 0x645, 0x644, 0x629]"

definition key_oneDay :: jsstring where
  "key_oneDay = [0x64A, 0x648, 0x645, 0x20, 0x648, 0x627, 0x62D, 0x62F]"

definition key_id :: jsstring where
  "key_id = [0x69, 0x64]"

text \<open>The customer type written in Arabic as "ordinary".\<close>

definition customer_standard :: jsstring where
  "customer_standard = [0x639, 0x627, 0x62F, 0x64A]"

record BillboardPricingData =
  bid :: jsstring
  name :: jsstring
  bsize :: jsstring
  municipality :: jsstring
  level :: jsstring
  status :: jsstring
  location :: jsstring
  imageUrl :: "jsstring option"

record PricingCalculation =
  billboard :: BillboardPricingData
  basePrice :: jsnum
  dailyPrice :: jsnum
  totalDays :: jsnum
  subtotal :: jsnum
  installationPrice :: jsnum
  total :: jsnum

record PackageOption =
  key :: jsstring
  label :: jsstring
  duration :: jsnum

datatype PricingMode = daily | package

definition getPackageOptions :: "PackageOption list" where
  "getPackageOptions =
     [\<lparr>key = key_oneMonth, label = key_oneMonth, duration = Num 30\<rparr>,
      \<lparr>key = key_twoMonths, label = key_twoMonths, duration = Num 60\<rparr>,
      \<lparr>key = key_threeMonths, label = key_threeMonths, duration = Num 90\<rparr>,
      \<lparr>key = key_sixMonths, label = key_sixMonths, duration = Num 180\<rparr>,
      \<lparr>key = key_oneYear, label = key_oneYear, duration = Num 365\<rparr>]"

section \<open>The host: cache, backend and clock\<close>

text \<open>
  What the service reads from outside itself. \<open>storage\<close> is the parsed cache entry of
  \<^verbatim>\<open>localStorage\<close> (the rows and their capture time), \<open>storageWritable\<close> says
  whether writing to it succeeds (a failed write is swallowed by the source),
  \<open>clock\<close> is \<^verbatim>\<open>Date.now()\<close>, \<open>supabase\<close> the backend client (\<open>None\<close>
  when it is not configured), \<open>dateTime s\<close> is \<^verbatim>\<open>new Date(s).getTime()\<close>
  and \<open>addDays s n\<close> is the date string that \<^verbatim>\<open>generateQuote\<close> derives from a
  start date \<open>s\<close> by \<^verbatim>\<open>setDate(getDate() + n)\<close> and
  \<^verbatim>\<open>toISOString().split('T')[0]\<close>, \<open>None\<close> when \<^verbatim>\<open>toISOString\<close> throws
  its \<^verbatim>\<open>RangeError\<close> on an invalid date. \<open>numberText\<close> is the host's rendering of a
  number as a string, consulted for the finite numbers whose rendering is not the plain
  decimal numeral: those with a fractional part or of magnitude \<open>10\<^sup>2\<^sup>1\<close> and more.
  The backend client holds the rows of the price table and says, for each of the three
  requests the service makes, whether it succeeds, returns an error or throws.
\<close>

datatype fault = Ok | Fails jsstring | Throws jsstring

record client =
  table :: "PricingRow list"
  selectFault :: fault
  deleteFault :: fault
  insertFault :: fault

record host =
  storage :: "(PricingRow list \<times> int) option"
  storageWritable :: bool
  clock :: int
  supabase :: "client option"
  dateTime :: "jsstring \<Rightarrow> jsnum"
  addDays :: "jsstring \<Rightarrow> jsnum \<Rightarrow> jsstring option"
  numberText :: "rat \<Rightarrow> jsstring"

definition CACHE_DURATION :: int where
  "CACHE_DURATION = 5 * 60 * 1000"

definition clearCache :: "host \<Rightarrow> host" where
  "clearCache h = (if storageWritable h then h\<lparr>storage := None\<rparr> else h)"

definition setCachedData :: "PricingRow list \<Rightarrow> host \<Rightarrow> host" where
  "setCachedData rows h =
     (if storageWritable h then h\<lparr>storage := Some (rows, clock h)\<rparr> else h)"

definition getCachedData :: "host \<Rightarrow> PricingRow list option \<times> host" where
  "getCachedData h =
     (case storage h of
        None \<Rightarrow> (None, h)
      | Some (rows, timestamp) \<Rightarrow>
          if clock h - timestamp > CACHE_DURATION then (None, clearCache h)
          else (Some rows, h))"

definition getFallbackData :: "PricingRow list" where
  "getFallbackData =
     [map_of
        [(key_id, JNum (Num 1)),
         (key_size, JStr (ascii ''13x5'')),
         (key_level, JStr (ascii ''A'')),
         (key_customer, JStr customer_standard),
         (key_oneMonth, JNum (Num 24000)),
         (key_twoMonths, JNum (Num 23000)),
         (key_threeMonths, JNum (Num 22000)),
         (key_sixMonths, JNum (Num 21000)),
         (key_oneYear, JNum (Num 20000)),
         (key_oneDay, JNum (Num 800))],
      map_of
        [(key_id, JNum (Num 2)),
         (key_size, JStr (ascii ''12x4'')),
         (key_level, JStr (ascii ''A'')),
         (key_customer, JStr customer_standard),
         (key_oneMonth, JNum (Num 21000)),
         (key_twoMonths, JNum (Num 20000)),
         (key_threeMonths, JNum (Num 19000)),
         (key_sixMonths, JNum (Num 18000)),
         (key_oneYear, JNum (Num 17000)),
         (key_oneDay, JNum (Num 700))]]"

definition getAllPricingData :: "host \<Rightarrow> PricingRow list \<times> host" where
  "getAllPricingData h =
     (case getCachedData h of
        (Some cached, h1) \<Rightarrow> (cached, h1)
      | (None, h1) \<Rightarrow>
          (case supabase h1 of
             None \<Rightarrow> (getFallbackData, h1)
           | Some c \<Rightarrow>
               (case selectFault c of
                  Ok \<Rightarrow> (table c, setCachedData (table c) h1)
                | Fails e \<Rightarrow> (getFallbackData, h1)
                | Throws e \<Rightarrow> (getFallbackData, h1))))"

section \<open>Price resolution and the two calculators\<close>

definition matches :: "jsstring \<Rightarrow> jsstring \<Rightarrow> jsstring \<Rightarrow> PricingRow \<Rightarrow> bool" where
  "matches sz lvl customerType r =
     (get r key_size = JStr sz \<and> get r key_level = JStr lvl
      \<and> get r key_customer = JStr customerType)"

text \<open>\<^verbatim>\<open>typeof price === 'number' ? price : 0\<close>\<close>

fun number_or_zero :: "jsval \<Rightarrow> jsnum" where
  "number_or_zero (JNum price) = price"
| "number_or_zero v = Num 0"

definition findPriceForBillboard ::
  "host \<Rightarrow> jsstring \<Rightarrow> jsstring \<Rightarrow> jsstring \<Rightarrow> jsstring \<Rightarrow> jsnum \<times> host" where
  "findPriceForBillboard h sz lvl customerType pricingKey =
     (case getAllPricingData h of
        (pricingData, h1) \<Rightarrow>
          (case find (matches sz lvl customerType) pricingData of
             None \<Rightarrow> (Num 0, h1)
           | Some row \<Rightarrow> (number_or_zero (get row pricingKey), h1)))"

definition calculateDailyPrice ::
  "host \<Rightarrow> BillboardPricingData \<Rightarrow> jsstring \<Rightarrow> jsstring \<Rightarrow> jsstring \<Rightarrow> bool
     \<Rightarrow> PricingCalculation \<times> host" where
  "calculateDailyPrice h b customerType startDate endDate includeInstallation =
     (case findPriceForBillboard h (bsize b) (level b) customerType key_oneDay of
        (price, h1) \<Rightarrow>
          (let start = dateTime h startDate;
               endT = dateTime h endDate;
               days = js_add (Math_ceil (js_div (js_sub endT start)
                                (Num (1000 * 60 * 60 * 24)))) (Num 1);
               sub = js_mul price days;
               inst = (if includeInstallation
                       then getInstallationPrice (bsize b) (municipality b) else Num 0)
           in (\<lparr>billboard = b, basePrice = price, dailyPrice = price, totalDays = days,
                 subtotal = sub, installationPrice = inst, total = js_add sub inst\<rparr>, h1)))"

definition calculatePackagePrice ::
  "host \<Rightarrow> BillboardPricingData \<Rightarrow> jsstring \<Rightarrow> PackageOption \<Rightarrow> bool
     \<Rightarrow> PricingCalculation \<times> host" where
  "calculatePackagePrice h b customerType packageOption includeInstallation =
     (case findPriceForBillboard h (bsize b) (level b) customerType (key packageOption) of
        (packagePrice, h1) \<Rightarrow>
          (let inst = (if includeInstallation
                       then getInstallationPrice (bsize b) (municipality b) else Num 0)
           in (\<lparr>billboard = b, basePrice = packagePrice,
                 dailyPrice = Math_round (js_div packagePrice (duration packageOption)),
                 totalDays = duration packageOption, subtotal = packagePrice,
                 installationPrice = inst, total = js_add packagePrice inst\<rparr>, h1)))"


section \<open>Batches and quotes\<close>

datatype error = InvalidParameters | RangeError

text \<open>An optional string is truthy when it is present and not empty.\<close>

fun given :: "jsstring option \<Rightarrow> jsstring option" where
  "given None = None"
| "given (Some s) = (if s = [] then None else Some s)"

text \<open>
  The loop of \<^verbatim>\<open>calculateMultipleBillboards\<close>: \<open>calculations\<close> is the array
  built so far. The \<^verbatim>\<open>throw\<close> sits inside the loop body.
\<close>

fun calculateLoop ::
  "host \<Rightarrow> BillboardPricingData list \<Rightarrow> jsstring \<Rightarrow> PricingMode \<Rightarrow> jsstring
     \<Rightarrow> jsstring option \<Rightarrow> PackageOption option \<Rightarrow> bool \<Rightarrow> PricingCalculation list
     \<Rightarrow> (error + PricingCalculation list) \<times> host" where
  "calculateLoop h [] customerType pricingMode startDate endDate packageOption incl calculations =
     (Inr calculations, h)"
| "calculateLoop h (b # bs) customerType pricingMode startDate endDate packageOption incl
       calculations =
     (case (pricingMode, given endDate, packageOption) of
        (daily, Some e, po) \<Rightarrow>
          (case calculateDailyPrice h b customerType startDate e incl of
             (calculation, h1) \<Rightarrow>
               calculateLoop h1 bs customerType pricingMode startDate endDate packageOption incl
                 (calculations @ [calculation]))
      | (package, e, Some po) \<Rightarrow>
          (case calculatePackagePrice h b customerType po incl of
             (calculation, h1) \<Rightarrow>
               calculateLoop h1 bs customerType pricingMode startDate endDate packageOption incl
                 (calculations @ [calculation]))
      | (daily, None, po) \<Rightarrow> (Inl InvalidParameters, h)
      | (package, e, None) \<Rightarrow> (Inl InvalidParameters, h))"

definition calculateMultipleBillboards ::
  "host \<Rightarrow> BillboardPricingData list \<Rightarrow> jsstring \<Rightarrow> PricingMode \<Rightarrow> jsstring
     \<Rightarrow> jsstring option \<Rightarrow> PackageOption option \<Rightarrow> bool
     \<Rightarrow> (error + PricingCalculation list) \<times> host" where
  "calculateMultipleBillboards h billboards customerType pricingMode startDate endDate
       packageOption incl =
     calculateLoop h billboards customerType pricingMode startDate endDate packageOption incl []"

record CustomerInfo =
  customerName :: jsstring
  email :: jsstring
  phone :: jsstring
  company :: "jsstring option"
  customerType :: jsstring

text \<open>
  The quote. Its \<open>quoteId\<close> is the number after \<^verbatim>\<open>Q-\<close>, and \<open>createdAt\<close> and
  \<open>validUntil\<close> are kept as instants in milliseconds (their ISO rendering is the
  host's).
\<close>

record PricingQuote =
  quoteId :: int
  customerInfo :: CustomerInfo
  pricingMode :: PricingMode
  startDate :: jsstring
  endDate :: "jsstring option"
  packageDuration :: "jsstring option"
  billboards :: "PricingCalculation list"
  quoteSubtotal :: jsnum
  totalInstallation :: jsnum
  grandTotal :: jsnum
  currency :: jsstring
  createdAt :: int
  validUntil :: int

definition generateQuote ::
  "host \<Rightarrow> CustomerInfo \<Rightarrow> BillboardPricingData list \<Rightarrow> PricingMode \<Rightarrow> jsstring
     \<Rightarrow> jsstring option \<Rightarrow> PackageOption option \<Rightarrow> bool
     \<Rightarrow> (error + PricingQuote) \<times> host" where
  "generateQuote h info bbs mode start endD packageOption incl =
     (case calculateMultipleBillboards h bbs (customerType info) mode start endD
             packageOption incl of
        (Inl e, h1) \<Rightarrow> (Inl e, h1)
      | (Inr calculations, h1) \<Rightarrow>
          (let sub = foldl (\<lambda>sum calc. js_add sum (subtotal calc)) (Num 0) calculations;
               inst = foldl (\<lambda>sum calc. js_add sum (installationPrice calc)) (Num 0)
                        calculations;
               finalEndDate =
                 (case (mode, packageOption) of
                    (package, Some po) \<Rightarrow> map_option Some (addDays h1 start (duration po))
                  | (daily, po) \<Rightarrow> Some endD
                  | (package, None) \<Rightarrow> Some endD)
           in case finalEndDate of
                None \<Rightarrow> (Inl RangeError, h1)
              | Some finalEnd \<Rightarrow>
                  (Inr \<lparr>quoteId = clock h1, customerInfo = info, pricingMode = mode,
                        startDate = start, endDate = finalEnd,
                        packageDuration = map_option label packageOption,
                        billboards = calculations, quoteSubtotal = sub,
                        totalInstallation = inst, grandTotal = js_add sub inst,
                        currency = [0x62F, 0x2E, 0x644], createdAt = clock h1,
                        validUntil = clock h1 + 30 * 24 * 60 * 60 * 1000\<rparr>, h1)))"

section \<open>Campaign statistics\<close>

definition calculateAverageDailyPrice :: "PricingCalculation list \<Rightarrow> jsnum" where
  "calculateAverageDailyPrice calculations =
     (if length calculations = 0 then Num 0
      else Math_round
             (js_div (foldl (\<lambda>sum calc. js_add sum (dailyPrice calc)) (Num 0) calculations)
                     (Num (of_nat (length calculations)))))"

text \<open>
  \<^verbatim>\<open>m[k] = (m[k] || 0) + 1\<close> on a breakdown object that starts as \<^verbatim>\<open>{}\<close>. An own
  property holds a count, or a text: when the first read of a key finds an inherited
  function, \<^verbatim>\<open>+ 1\<close> appends the digit 1 to the function's source text and the
  string is stored; every later addition appends one more digit. \<open>Text n\<close> is that
  string with \<open>n\<close> digits appended. For the key \<^verbatim>\<open>__proto__\<close> the string is handed
  to the inherited setter and nothing is stored.
\<close>

datatype entry = Count nat | Text nat

definition increment :: "(jsstring \<rightharpoonup> entry) \<Rightarrow> jsstring \<Rightarrow> (jsstring \<rightharpoonup> entry)" where
  "increment m k =
     (if k = proto_key then m
      else (case m k of
              Some (Count n) \<Rightarrow> m(k \<mapsto> Count ((if n \<noteq> 0 then n else 0) + 1))
            | Some (Text n) \<Rightarrow> m(k \<mapsto> Text (n + 1))
            | None \<Rightarrow> (if k \<in> set inherited_keys then m(k \<mapsto> Text 1)
                       else m(k \<mapsto> Count 1))))"

record CampaignStats =
  totalBillboards :: nat
  campaignDays :: jsnum
  averageDailyPrice :: jsnum
  sizeBreakdown :: "jsstring \<rightharpoonup> entry"
  municipalityBreakdown :: "jsstring \<rightharpoonup> entry"
  levelBreakdown :: "jsstring \<rightharpoonup> entry"

definition tally ::
  "(jsstring \<rightharpoonup> entry) \<times> (jsstring \<rightharpoonup> entry) \<times> (jsstring \<rightharpoonup> entry)
     \<Rightarrow> PricingCalculation
     \<Rightarrow> (jsstring \<rightharpoonup> entry) \<times> (jsstring \<rightharpoonup> entry) \<times> (jsstring \<rightharpoonup> entry)" where
  "tally acc calc =
     (case acc of
        (sizes, municipalities, levels) \<Rightarrow>
          (increment sizes (bsize (billboard calc)),
           increment municipalities (municipality (billboard calc)),
           increment levels (level (billboard calc))))"

definition getCampaignStats :: "PricingCalculation list \<Rightarrow> CampaignStats" where
  "getCampaignStats calculations =
     (case foldl tally (Map.empty, Map.empty, Map.empty) calculations of
        (sizes, municipalities, levels) \<Rightarrow>
          \<lparr>totalBillboards = length calculations,
           campaignDays = (case calculations of [] \<Rightarrow> Num 0 | c # cs \<Rightarrow> totalDays c),
           averageDailyPrice = calculateAverageDailyPrice calculations,
           sizeBreakdown = sizes,
           municipalityBreakdown = municipalities,
           levelBreakdown = levels\<rparr>)"


section \<open>Strings\<close>

text \<open>
  \<^verbatim>\<open>String.prototype.split\<close> with a separator of one code unit: the result is never
  empty, and the empty string splits into one empty piece.
\<close>

fun split :: "nat \<Rightarrow> jsstring \<Rightarrow> jsstring list" where
  "split sep [] = [[]]"
| "split sep (c # cs) =
     (if c = sep then [] # split sep cs
      else (case split sep cs of [] \<Rightarrow> [[c]] | w # ws \<Rightarrow> (c # w) # ws))"

text \<open>\<^verbatim>\<open>Array.prototype.join\<close> on strings.\<close>

fun join :: "nat \<Rightarrow> jsstring list \<Rightarrow> jsstring" where
  "join sep [] = []"
| "join sep [x] = x"
| "join sep (x # y # ys) = x @ sep # join sep (y # ys)"

text \<open>The white space and line terminators that \<^verbatim>\<open>trim\<close> and \<^verbatim>\<open>parseInt\<close> skip.\<close>

definition is_space :: "nat \<Rightarrow> bool" where
  "is_space c =
     (c = 0x9 \<or> c = 0xA \<or> c = 0xB \<or> c = 0xC \<or> c = 0xD \<or> c = 0x20 \<or> c = 0xA0
      \<or> c = 0x1680 \<or> (0x2000 \<le> c \<and> c \<le> 0x200A) \<or> c = 0x2028 \<or> c = 0x2029
      \<or> c = 0x202F \<or> c = 0x205F \<or> c = 0x3000 \<or> c = 0xFEFF)"

definition trim :: "jsstring \<Rightarrow> jsstring" where
  "trim s = rev (dropWhile is_space (rev (dropWhile is_space s)))"

text \<open>
  \<^verbatim>\<open>parseInt\<close> without a radix: leading white space, an optional sign, an optional
  \<^verbatim>\<open>0x\<close> prefix, then the longest run of digits of the radix; \<open>NaN\<close> when that run
  is empty.
\<close>

definition digit_of :: "nat \<Rightarrow> nat option" where
  "digit_of c =
     (if 0x30 \<le> c \<and> c \<le> 0x39 then Some (c - 0x30)
      else if 0x61 \<le> c \<and> c \<le> 0x7A then Some (c - 0x61 + 10)
      else if 0x41 \<le> c \<and> c \<le> 0x5A then Some (c - 0x41 + 10)
      else None)"

definition is_digit :: "nat \<Rightarrow> nat \<Rightarrow> bool" where
  "is_digit radix c = (case digit_of c of None \<Rightarrow> False | Some d \<Rightarrow> d < radix)"

definition digits_value :: "nat \<Rightarrow> jsstring \<Rightarrow> nat" where
  "digits_value radix z =
     foldl (\<lambda>acc c. acc * radix + (case digit_of c of None \<Rightarrow> 0 | Some d \<Rightarrow> d)) 0 z"

fun strip_sign :: "jsstring \<Rightarrow> bool \<times> jsstring" where
  "strip_sign [] = (False, [])"
| "strip_sign (c # cs) =
     (if c = 0x2D then (True, cs) else if c = 0x2B then (False, cs) else (False, c # cs))"

fun strip_prefix :: "jsstring \<Rightarrow> nat \<times> jsstring" where
  "strip_prefix (a # b # cs) =
     (if a = 0x30 \<and> (b = 0x78 \<or> b = 0x58) then (16, cs) else (10, a # b # cs))"
| "strip_prefix cs = (10, cs)"

definition parseInt :: "jsstring \<Rightarrow> jsnum" where
  "parseInt str =
     (case strip_sign (dropWhile is_space str) of
        (negative, s) \<Rightarrow>
          (case strip_prefix s of
             (radix, t) \<Rightarrow>
               (let z = takeWhile (is_digit radix) t
                in if z = [] then NaN
                   else Num (of_int ((if negative then - 1 else 1)
                                       * int (digits_value radix z))))))"

text \<open>
  The string of a number, as \<^verbatim>\<open>join\<close> and template strings produce it: the decimal
  numeral for a whole number below \<open>10\<^sup>2\<^sup>1\<close> in magnitude.
\<close>

fun decimal :: "nat \<Rightarrow> jsstring" where
  "decimal n = (if n < 10 then [0x30 + n] else decimal (n div 10) @ [0x30 + n mod 10])"

declare decimal.simps [simp del]

definition int_text :: "int \<Rightarrow> jsstring" where
  "int_text i = (if i < 0 then 0x2D # decimal (nat (- i)) else decimal (nat i))"

definition Number_toString :: "host \<Rightarrow> jsnum \<Rightarrow> jsstring" where
  "Number_toString h x =
     (case x of
        Num r \<Rightarrow>
          (if of_int \<lfloor>r\<rfloor> = r \<and> \<bar>r\<bar> < 10 ^ 21 then int_text \<lfloor>r\<rfloor> else numberText h r)
      | NaN \<Rightarrow> ascii ''NaN''
      | PosInf \<Rightarrow> ascii ''Infinity''
      | NegInf \<Rightarrow> ascii ''-Infinity'')"

text \<open>Truthiness of a value, \<^verbatim>\<open>v || d\<close>, and the string \<^verbatim>\<open>join\<close> makes of an
  array element (nothing for \<^verbatim>\<open>undefined\<close> and \<^verbatim>\<open>null\<close>).\<close>

fun truthy :: "jsval \<Rightarrow> bool" where
  "truthy JUndefined = False"
| "truthy JNull = False"
| "truthy (JNum x) = truthy_num x"
| "truthy (JStr s) = (s \<noteq> [])"

definition val_or :: "jsval \<Rightarrow> jsval \<Rightarrow> jsval" where
  "val_or v d = (if truthy v then v else d)"

fun element_text :: "host \<Rightarrow> jsval \<Rightarrow> jsstring" where
  "element_text h JUndefined = []"
| "element_text h JNull = []"
| "element_text h (JNum x) = Number_toString h x"
| "element_text h (JStr s) = s"

section \<open>Bulk export and import\<close>

definition comma :: nat where
  "comma = 0x2C"

definition newline :: nat where
  "newline = 0xA"

text \<open>\<^verbatim>\<open>exportToCSV\<close> of the data manager: the text it offers for download.\<close>

definition export_headers :: "jsstring list" where
  "export_headers =
     [key_size, key_level, key_customer, key_oneMonth, key_twoMonths, key_threeMonths,
      key_sixMonths, key_oneYear, key_oneDay, key_id]"

definition export_cells :: "PricingRow \<Rightarrow> jsval list" where
  "export_cells row =
     [get row key_size,
      get row key_level,
      get row key_customer,
      val_or (get row key_oneMonth) (JNum (Num 0)),
      val_or (get row key_twoMonths) (JNum (Num 0)),
      val_or (get row key_threeMonths) (JNum (Num 0)),
      val_or (get row key_sixMonths) (JNum (Num 0)),
      val_or (get row key_oneYear) (JNum (Num 0)),
      val_or (get row key_oneDay) (JNum (Num 0)),
      val_or (get row key_id) (JStr [])]"

definition exportToCSV :: "host \<Rightarrow> PricingRow list \<Rightarrow> jsstring" where
  "exportToCSV h pricingData =
     join newline
       (join comma export_headers
        # map (\<lambda>row. join comma (map (element_text h) (export_cells row))) pricingData)"

text \<open>
  The parsing part of \<^verbatim>\<open>updatePricingData\<close>. \<open>cell values index\<close> is
  \<^verbatim>\<open>values[index]?.trim()\<close>, and \<^verbatim>\<open>parseInt\<close> of \<^verbatim>\<open>undefined\<close> parses the
  string \<^verbatim>\<open>undefined\<close>.
\<close>

definition price_headers :: "jsstring list" where
  "price_headers =
     [key_oneMonth, key_twoMonths, key_threeMonths, key_sixMonths, key_oneYear, key_oneDay]"

definition cell :: "jsstring list \<Rightarrow> nat \<Rightarrow> jsstring option" where
  "cell values index = (if index < length values then Some (trim (values ! index)) else None)"

definition parseInt_of :: "jsstring option \<Rightarrow> jsnum" where
  "parseInt_of v = (case v of None \<Rightarrow> parseInt (ascii ''undefined'') | Some s \<Rightarrow> parseInt s)"

definition id_value :: "jsstring option \<Rightarrow> jsval" where
  "id_value v = (if truthy_num (parseInt_of v) then JNum (parseInt_of v) else JUndefined)"

definition price_value :: "jsstring option \<Rightarrow> jsval" where
  "price_value v = JNum (num_or (Some (parseInt_of v)) (Num 0))"

definition text_value :: "jsstring option \<Rightarrow> jsval" where
  "text_value v = (case v of None \<Rightarrow> JStr [] | Some s \<Rightarrow> (if s \<noteq> [] then JStr s else JStr []))"

definition field_value :: "jsstring \<Rightarrow> jsstring option \<Rightarrow> jsval" where
  "field_value header v =
     (if header = key_id then id_value v
      else if header \<in> set price_headers then price_value v
      else text_value v)"

text \<open>
  The callback of \<^verbatim>\<open>headers.forEach\<close>, and the row object it fills. A header
  \<^verbatim>\<open>__proto__\<close> is neither the id nor a price column, so what is assigned under it is
  a string, which the inherited setter ignores.
\<close>

definition set_field :: "jsstring list \<Rightarrow> PricingRow \<Rightarrow> jsstring \<times> nat \<Rightarrow> PricingRow" where
  "set_field values row hi =
     (case hi of
        (header, index) \<Rightarrow>
          (if header = proto_key then row
           else row(header \<mapsto> field_value header (cell values index))))"

definition parse_line :: "jsstring list \<Rightarrow> jsstring \<Rightarrow> PricingRow" where
  "parse_line headers line =
     foldl (set_field (split comma line)) Map.empty (zip headers [0..<length headers])"

definition accepted :: "PricingRow \<Rightarrow> bool" where
  "accepted row =
     (truthy (get row key_size) \<and> truthy (get row key_level) \<and> truthy (get row key_customer))"

fun parse_lines :: "jsstring list \<Rightarrow> jsstring list \<Rightarrow> PricingRow list \<Rightarrow> PricingRow list" where
  "parse_lines headers [] rows = rows"
| "parse_lines headers (line # rest) rows =
     (let row = parse_line headers line
      in parse_lines headers rest (if accepted row then rows @ [row] else rows))"

definition parsed_rows :: "jsstring \<Rightarrow> PricingRow list" where
  "parsed_rows csvData =
     (case split newline (trim csvData) of
        [] \<Rightarrow> []
      | first # rest \<Rightarrow> parse_lines (split comma first) rest [])"





section \<open>Example inputs\<close>

text \<open>
  A host without cache entry or backend client, so that the built-in rows are served,
  and whose \<open>dateTime\<close> knows two ISO dates six days apart; and a billboard.
\<close>

definition example_host :: host where
  "example_host =
     \<lparr>storage = None, storageWritable = True, clock = 1704067200000, supabase = None,
      dateTime = (\<lambda>s. if s = ascii ''2024-01-01'' then Num 1704067200000
                      else if s = ascii ''2024-01-07'' then Num 1704585600000 else NaN),
      addDays = (\<lambda>s n. if s = ascii ''2024-01-01'' \<and> n = Num 30
                       then Some (ascii ''2024-01-31'') else None),
      numberText = (\<lambda>r. ascii ''?'')\<rparr>"

definition example_billboard :: BillboardPricingData where
  "example_billboard =
     \<lparr>bid = ascii ''B1'', name = ascii ''Gate'', bsize = ascii ''13x5'',
      municipality = tripoli, level = ascii ''A'', status = ascii ''available'',
      location = ascii ''Ring road'', imageUrl = None\<rparr>"

text \<open>Finite numbers.\<close>

fun finite_num :: "jsnum \<Rightarrow> bool" where
  "finite_num (Num a) = True"
| "finite_num x = False"

definition example_package :: PackageOption where
  "example_package = \<lparr>key = key_oneMonth, label = key_oneMonth, duration = Num 30\<rparr>"

text \<open>Summation as \<^verbatim>\<open>reduce((sum, x) => sum + x, 0)\<close> computes it, and the rational
  value of a finite number.\<close>

definition js_sum :: "jsnum list \<Rightarrow> jsnum" where
  "js_sum xs = foldl js_add (Num 0) xs"

fun rat_of :: "jsnum \<Rightarrow> rat" where
  "rat_of (Num a) = a"
| "rat_of x = 0"

definition example_customer :: CustomerInfo where
  "example_customer =
     \<lparr>customerName = ascii ''Salem'', email = ascii ''salem@example.org'',
      phone = ascii ''0910000000'', company = None, customerType = customer_standard\<rparr>"

definition example_line :: PricingCalculation where
  "example_line =
     \<lparr>billboard = example_billboard, basePrice = Num 24000, dailyPrice = Num 800,
      totalDays = Num 30, subtotal = Num 24000, installationPrice = Num 1650,
      total = Num 25650\<rparr>"




text \<open>Two calculations for billboards whose size is the name of an inherited property.\<close>

definition constructor_line :: PricingCalculation where
  "constructor_line = example_line\<lparr>billboard := example_billboard\<lparr>bsize := ascii ''constructor''\<rparr>\<rparr>"

definition proto_line :: PricingCalculation where
  "proto_line = example_line\<lparr>billboard := example_billboard\<lparr>bsize := proto_key\<rparr>\<rparr>"

section \<open>Tables that survive the text format\<close>

text \<open>
  A cell text that the format can carry: not empty, free of commas and line feeds, and
  without white space at either end. A price or id that it can carry: absent, or a whole
  number below \<open>10\<^sup>2\<^sup>1\<close> in magnitude.
\<close>

definition plain :: "jsstring \<Rightarrow> bool" where
  "plain s = (s \<noteq> [] \<and> comma \<notin> set s \<and> newline \<notin> set s \<and> trim s = s)"

fun plain_text :: "jsval \<Rightarrow> bool" where
  "plain_text (JStr s) = plain s"
| "plain_text v = False"

fun whole_or_absent :: "jsval \<Rightarrow> bool" where
  "whole_or_absent JUndefined = True"
| "whole_or_absent JNull = True"
| "whole_or_absent (JNum (Num r)) = (of_int \<lfloor>r\<rfloor> = r \<and> \<bar>r\<bar> < 10 ^ 21)"
| "whole_or_absent (JNum x) = False"
| "whole_or_absent (JStr s) = False"

definition exportable :: "PricingRow \<Rightarrow> bool" where
  "exportable r =
     (plain_text (get r key_size) \<and> plain_text (get r key_level)
      \<and> plain_text (get r key_customer)
      \<and> list_all (\<lambda>k. whole_or_absent (get r k)) price_headers
      \<and> whole_or_absent (get r key_id))"

text \<open>What a row is to price resolution, and what an import of its exported line should
  give back: the three keys, the six prices with an absent one read as 0, and the id
  unless it is absent or 0.\<close>

definition row_view :: "PricingRow \<Rightarrow> jsval list" where
  "row_view r =
     [get r key_size, get r key_level, get r key_customer]
     @ map (\<lambda>k. JNum (number_or_zero (get r k))) price_headers
     @ [if truthy (get r key_id) then get r key_id else JUndefined]"

text \<open>A row whose size contains a comma.\<close>

definition comma_row :: PricingRow where
  "comma_row =
     map_of
       [(key_size, JStr (ascii ''13,5'')),
        (key_level, JStr (ascii ''A'')),
        (key_customer, JStr customer_standard),
        (key_oneDay, JNum (Num 800))]"

section \<open>Arithmetic\<close>

lemma floor_rat_numeral:
  "\<lfloor>(numeral a :: rat) / numeral b\<rfloor> = numeral a div numeral b"
  using floor_divide_of_int_eq [of "numeral a" "numeral b", where ?'a = rat] by simp

section \<open>Properties of the installation fee\<close>

lemma finite_num_iff: "finite_num x \<longleftrightarrow> (\<exists>a. x = Num a)"
  by (cases x) auto

lemma map_of_default_finite:
  assumes "list_all (\<lambda>kv. finite_num (snd kv)) t" and "finite_num d"
  shows "finite_num (case map_of t k of None \<Rightarrow> d | Some v \<Rightarrow> v)"
proof (cases "map_of t k")
  case None
  with assms show ?thesis by simp
next
  case (Some v)
  then have "(k, v) \<in> set t" by (rule map_of_SomeD)
  with assms(1) have "finite_num v" by (auto simp: list_all_iff)
  with Some show ?thesis by simp
qed

lemma read_own:
  "k \<notin> set inherited_keys \<Longrightarrow>
     ToNumber (or_default (read_literal t k) d)
       = (case map_of t k of None \<Rightarrow> d | Some v \<Rightarrow> (if truthy_num v then v else d))"
  by (simp add: read_literal_def split: option.splits)

lemma read_inherited:
  "k \<in> set inherited_keys \<Longrightarrow> map_of t k = None \<Longrightarrow>
     ToNumber (or_default (read_literal t k) d) = NaN"
  by (simp add: read_literal_def)

lemmas inherited_simps = inherited_keys_def proto_key_def ascii_def

lemma fee_13x5_tripoli: "getInstallationPrice (ascii ''13x5'') tripoli = Num 1650"
  by (simp add: getInstallationPrice_def read_literal_def installationPrices_def
      municipalityMultipliers_def ascii_def tripoli_def misrata_def floor_rat_numeral)

lemma fee_unknown:
  "getInstallationPrice (ascii ''unknown-size'') (ascii ''unknown-city'') = Num 500"
  by (simp add: getInstallationPrice_def read_literal_def installationPrices_def
      municipalityMultipliers_def inherited_simps tripoli_def misrata_def benghazi_def
      zliten_def abu_salim_def floor_rat_numeral)

text \<open>
  For a size and a municipality that are not names of inherited properties the fee is
  \<open>round (base * multiplier)\<close> with the defaults 500 and 1, a finite whole number.
\<close>

lemma getInstallationPrice_own:
  assumes "sz \<notin> set inherited_keys" and "mun \<notin> set inherited_keys"
  shows "getInstallationPrice sz mun =
     Math_round (js_mul (case map_of installationPrices sz of None \<Rightarrow> Num 500 | Some b \<Rightarrow> b)
                        (case map_of municipalityMultipliers mun of None \<Rightarrow> Num 1 | Some m \<Rightarrow> m))"
    and "\<exists>n::int. getInstallationPrice sz mun = Num (of_int n)"
proof -
  have base: "ToNumber (or_default (read_literal installationPrices sz) (Num 500))
      = (case map_of installationPrices sz of None \<Rightarrow> Num 500 | Some b \<Rightarrow> b)"
    unfolding read_own [OF assms(1)] by (simp add: installationPrices_def)
  have mult: "ToNumber (or_default (read_literal municipalityMultipliers mun) (Num 1))
      = (case map_of municipalityMultipliers mun of None \<Rightarrow> Num 1 | Some m \<Rightarrow> m)"
    unfolding read_own [OF assms(2)] by (simp add: municipalityMultipliers_def)
  show general: "getInstallationPrice sz mun =
     Math_round (js_mul (case map_of installationPrices sz of None \<Rightarrow> Num 500 | Some b \<Rightarrow> b)
                        (case map_of municipalityMultipliers mun of None \<Rightarrow> Num 1 | Some m \<Rightarrow> m))"
    by (simp add: getInstallationPrice_def base mult)
  have fb: "\<exists>a. (case map_of installationPrices sz of None \<Rightarrow> Num 500 | Some b \<Rightarrow> b) = Num a"
    unfolding finite_num_iff [symmetric]
    by (rule map_of_default_finite) (simp_all add: installationPrices_def)
  have fm: "\<exists>a. (case map_of municipalityMultipliers mun of None \<Rightarrow> Num 1 | Some m \<Rightarrow> m) = Num a"
    unfolding finite_num_iff [symmetric]
    by (rule map_of_default_finite) (simp_all add: municipalityMultipliers_def)
  from fb fm general show "\<exists>n::int. getInstallationPrice sz mun = Num (of_int n)"
    by auto
qed

text \<open>
  Claim C8. The installation fee is to be \<open>round (base * multiplier)\<close> with the base 500
  for every size that is not in the size table and the multiplier 1 for every
  municipality that is not in the municipality table. The code reads both tables with
  \<^verbatim>\<open>table[key] || default\<close>: for the size \<^verbatim>\<open>constructor\<close>, which is not in the
  table, the read finds the function every object inherits, the default 500 is not
  taken, and the fee is \<open>NaN\<close>; likewise for the municipality \<^verbatim>\<open>toString\<close>.
\<close>

theorem getInstallationPrice_inherited:
  "map_of installationPrices (ascii ''constructor'') = None
   \<and> getInstallationPrice (ascii ''constructor'') (ascii ''unknown-city'') = NaN
   \<and> map_of municipalityMultipliers (ascii ''toString'') = None
   \<and> getInstallationPrice (ascii ''13x5'') (ascii ''toString'') = NaN"
  by (simp add: getInstallationPrice_def read_literal_def installationPrices_def
      municipalityMultipliers_def inherited_simps tripoli_def misrata_def benghazi_def
      zliten_def abu_salim_def)

section \<open>Properties of the two calculators\<close>

lemma days_between:
  "js_add (Math_ceil (js_div (js_sub (Num e) (Num s)) (Num (1000 * 60 * 60 * 24)))) (Num 1)
     = Num (of_int (\<lceil>(e - s) / 86400000\<rceil> + 1))"
  by (simp add: js_sub_def)

text \<open>
  Claim C1. The daily-mode calculation returns the day count
  \<open>ceil ((end - start) / one day) + 1\<close>, the subtotal \<open>dailyPrice * totalDays\<close> and the
  total \<open>subtotal + installationPrice\<close>, where the installation price is the fee when the
  flag is set and 0 otherwise. For valid dates the day count is the whole number
  \<open>\<lceil>(e - s) / 86400000\<rceil> + 1\<close>: 1 when both dates are the same instant and 7 when
  the end is six days after the start.
\<close>

theorem calculateDailyPrice_fields:
  "(let c = fst (calculateDailyPrice h b ct startD endD incl) in
      billboard c = b
    \<and> dailyPrice c = fst (findPriceForBillboard h (bsize b) (level b) ct key_oneDay)
    \<and> totalDays c =
        js_add (Math_ceil (js_div (js_sub (dateTime h endD) (dateTime h startD))
                  (Num 86400000))) (Num 1)
    \<and> subtotal c = js_mul (dailyPrice c) (totalDays c)
    \<and> installationPrice c =
        (if incl then getInstallationPrice (bsize b) (municipality b) else Num 0)
    \<and> total c = js_add (subtotal c) (installationPrice c)
    \<and> (\<forall>s e. dateTime h startD = Num s \<and> dateTime h endD = Num e \<longrightarrow>
          totalDays c = Num (of_int (\<lceil>(e - s) / 86400000\<rceil> + 1)))
    \<and> (\<forall>s. dateTime h startD = Num s \<and> dateTime h endD = Num s \<longrightarrow> totalDays c = Num 1)
    \<and> (\<forall>s. dateTime h startD = Num s \<and> dateTime h endD = Num (s + 6 * 86400000) \<longrightarrow>
          totalDays c = Num 7))"
proof -
  obtain price h1 where f: "findPriceForBillboard h (bsize b) (level b) ct key_oneDay = (price, h1)"
    by (cases "findPriceForBillboard h (bsize b) (level b) ct key_oneDay")
  define c where "c = fst (calculateDailyPrice h b ct startD endD incl)"
  have days: "totalDays c =
        js_add (Math_ceil (js_div (js_sub (dateTime h endD) (dateTime h startD))
                  (Num 86400000))) (Num 1)"
    by (simp add: c_def calculateDailyPrice_def f Let_def)
  have fin: "totalDays c = Num (of_int (\<lceil>(e - s) / 86400000\<rceil> + 1))"
    if "dateTime h startD = Num s" "dateTime h endD = Num e" for s e
    using that days days_between [of e s] by simp
  have same: "totalDays c = Num 1" if "dateTime h startD = Num s" "dateTime h endD = Num s" for s
    using fin [OF that] by simp
  have week: "totalDays c = Num 7"
    if "dateTime h startD = Num s" "dateTime h endD = Num (s + 6 * 86400000)" for s
    using fin [OF that] by simp
  have rest: "billboard c = b"
    "dailyPrice c = fst (findPriceForBillboard h (bsize b) (level b) ct key_oneDay)"
    "subtotal c = js_mul (dailyPrice c) (totalDays c)"
    "installationPrice c =
        (if incl then getInstallationPrice (bsize b) (municipality b) else Num 0)"
    "total c = js_add (subtotal c) (installationPrice c)"
    by (simp_all add: c_def calculateDailyPrice_def f Let_def)
  from rest days fin same week show ?thesis
    unfolding Let_def c_def [symmetric] by blast
qed

theorem calculateDailyPrice_fields_witness:
  "totalDays (fst (calculateDailyPrice example_host example_billboard customer_standard
      (ascii ''2024-01-01'') (ascii ''2024-01-07'') True)) = Num 7
   \<and> totalDays (fst (calculateDailyPrice example_host example_billboard customer_standard
      (ascii ''2024-01-01'') (ascii ''2024-01-01'') True)) = Num 1"
proof -
  have a: "dateTime example_host (ascii ''2024-01-01'') = Num 1704067200000"
    by (simp add: example_host_def)
  have b: "dateTime example_host (ascii ''2024-01-07'') = Num (1704067200000 + 6 * 86400000)"
    by (simp add: example_host_def ascii_def)
  from calculateDailyPrice_fields [of example_host example_billboard customer_standard
      "ascii ''2024-01-01''" "ascii ''2024-01-07''" True]
    calculateDailyPrice_fields [of example_host example_billboard customer_standard
      "ascii ''2024-01-01''" "ascii ''2024-01-01''" True] a b
  show ?thesis unfolding Let_def by blast
qed

lemma round_div:
  "d \<noteq> 0 \<Longrightarrow> Math_round (js_div (Num p) (Num d)) = Num (of_int \<lfloor>p / d + 1 / 2\<rfloor>)"
  by simp

text \<open>
  Claim C2. The package-mode calculation returns the resolved package price as subtotal,
  the option's duration as day count, \<open>round (packagePrice / duration)\<close> as the displayed
  daily price (800 for a price of 24000 over 30 days) and
  \<open>packagePrice + installationPrice\<close> as total.
\<close>

theorem calculatePackagePrice_fields:
  "(let c = fst (calculatePackagePrice h b ct po incl) in
      billboard c = b
    \<and> subtotal c = fst (findPriceForBillboard h (bsize b) (level b) ct (key po))
    \<and> basePrice c = subtotal c
    \<and> totalDays c = duration po
    \<and> dailyPrice c = Math_round (js_div (subtotal c) (duration po))
    \<and> installationPrice c =
        (if incl then getInstallationPrice (bsize b) (municipality b) else Num 0)
    \<and> total c = js_add (subtotal c) (installationPrice c)
    \<and> (\<forall>p d. subtotal c = Num p \<and> duration po = Num d \<and> d \<noteq> 0 \<longrightarrow>
          dailyPrice c = Num (of_int \<lfloor>p / d + 1 / 2\<rfloor>))
    \<and> (subtotal c = Num 24000 \<and> duration po = Num 30 \<longrightarrow> dailyPrice c = Num 800))"
proof -
  obtain price h1 where f: "findPriceForBillboard h (bsize b) (level b) ct (key po) = (price, h1)"
    by (cases "findPriceForBillboard h (bsize b) (level b) ct (key po)")
  define c where "c = fst (calculatePackagePrice h b ct po incl)"
  have fields: "billboard c = b"
    "subtotal c = fst (findPriceForBillboard h (bsize b) (level b) ct (key po))"
    "basePrice c = subtotal c"
    "totalDays c = duration po"
    "dailyPrice c = Math_round (js_div (subtotal c) (duration po))"
    "installationPrice c =
        (if incl then getInstallationPrice (bsize b) (municipality b) else Num 0)"
    "total c = js_add (subtotal c) (installationPrice c)"
    by (simp_all add: c_def calculatePackagePrice_def f Let_def)
  have fin: "dailyPrice c = Num (of_int \<lfloor>p / d + 1 / 2\<rfloor>)"
    if "subtotal c = Num p" "duration po = Num d" "d \<noteq> 0" for p d
    using that fields(5) by simp
  have ex: "dailyPrice c = Num 800" if "subtotal c = Num 24000" "duration po = Num 30"
    using fin [OF that] by (simp add: floor_rat_numeral)
  from fields fin ex show ?thesis
    unfolding Let_def c_def [symmetric] by blast
qed

lemma example_table: "getAllPricingData example_host = (getFallbackData, example_host)"
  by (simp add: getAllPricingData_def getCachedData_def example_host_def)

lemma example_price:
  "findPriceForBillboard example_host (ascii ''13x5'') (ascii ''A'') customer_standard
     key_oneMonth = (Num 24000, example_host)"
  by (simp add: findPriceForBillboard_def example_table matches_def get_def
      getFallbackData_def key_size_def key_level_def key_customer_def key_oneMonth_def
      key_id_def)

lemma example_calculation:
  "calculatePackagePrice example_host example_billboard customer_standard example_package True
     = (\<lparr>billboard = example_billboard, basePrice = Num 24000, dailyPrice = Num 800,
          totalDays = Num 30, subtotal = Num 24000, installationPrice = Num 1650,
          total = Num 25650\<rparr>, example_host)"
proof -
  have b: "bsize example_billboard = ascii ''13x5''" "level example_billboard = ascii ''A''"
    "municipality example_billboard = tripoli"
    by (simp_all add: example_billboard_def)
  have p: "key example_package = key_oneMonth" "duration example_package = Num 30"
    by (simp_all add: example_package_def)
  show ?thesis
    by (simp add: calculatePackagePrice_def b p example_price fee_13x5_tripoli
        floor_rat_numeral)
qed

theorem calculatePackagePrice_fields_witness:
  "dailyPrice (fst (calculatePackagePrice example_host example_billboard customer_standard
      example_package True)) = Num 800"
proof -
  have sub: "subtotal (fst (calculatePackagePrice example_host example_billboard
      customer_standard example_package True)) = Num 24000"
    by (simp add: example_calculation)
  have dur: "duration example_package = Num 30"
    by (simp add: example_package_def)
  from calculatePackagePrice_fields [of example_host example_billboard customer_standard
      example_package True]
  have "subtotal (fst (calculatePackagePrice example_host example_billboard
      customer_standard example_package True)) = Num 24000
      \<and> duration example_package = Num 30
    \<longrightarrow> dailyPrice (fst (calculatePackagePrice example_host example_billboard
      customer_standard example_package True)) = Num 800"
    unfolding Let_def by blast
  with sub dur show ?thesis by blast
qed

section \<open>Properties of price resolution\<close>







section \<open>Properties of batches and quotes\<close>

lemma calculateDailyPrice_billboard:
  "billboard (fst (calculateDailyPrice h b ct s e incl)) = b"
  by (simp add: calculateDailyPrice_def Let_def split: prod.splits)

lemma calculatePackagePrice_billboard:
  "billboard (fst (calculatePackagePrice h b ct po incl)) = b"
  by (simp add: calculatePackagePrice_def Let_def split: prod.splits)

text \<open>With an end date that is present and not empty, daily mode prices every asset, in
  the order of the input.\<close>

lemma calculateLoop_daily:
  assumes "given endD = Some e"
  shows "\<exists>cs h'. calculateLoop h bs ct daily start endD po incl acc = (Inr cs, h')
           \<and> map billboard cs = map billboard acc @ bs"
proof (induction bs arbitrary: h acc)
  case Nil
  show ?case by simp
next
  case (Cons b bs)
  obtain c h1 where c: "calculateDailyPrice h b ct start e incl = (c, h1)"
    by (cases "calculateDailyPrice h b ct start e incl")
  then have "billboard c = b"
    using calculateDailyPrice_billboard [of h b ct start e incl] by simp
  with Cons.IH [of h1 "acc @ [c]"] c assms show ?case by simp
qed

lemma calculateLoop_package:
  "\<exists>cs h'. calculateLoop h bs ct package start endD (Some po) incl acc = (Inr cs, h')
           \<and> map billboard cs = map billboard acc @ bs"
proof (induction bs arbitrary: h acc)
  case Nil
  show ?case by simp
next
  case (Cons b bs)
  obtain c h1 where c: "calculatePackagePrice h b ct po incl = (c, h1)"
    by (cases "calculatePackagePrice h b ct po incl")
  then have "billboard c = b"
    using calculatePackagePrice_billboard [of h b ct po incl] by simp
  with Cons.IH [of h1 "acc @ [c]"] c show ?case by simp
qed

text \<open>With at least one asset, a missing end date in daily mode and a missing package in
  package mode make the batch throw, and nothing is returned.\<close>

lemma calculateMultipleBillboards_throws:
  "given endD = None \<Longrightarrow>
     calculateMultipleBillboards h (b # bs) ct daily start endD po incl
       = (Inl InvalidParameters, h)"
  "calculateMultipleBillboards h (b # bs) ct package start endD None incl
       = (Inl InvalidParameters, h)"
  by (simp_all add: calculateMultipleBillboards_def)

lemma calculateMultipleBillboards_valid:
  "given endD = Some e \<Longrightarrow>
     \<exists>cs h'. calculateMultipleBillboards h bs ct daily start endD po incl = (Inr cs, h')
        \<and> map billboard cs = bs"
  "\<exists>cs h'. calculateMultipleBillboards h bs ct package start endD (Some p) incl = (Inr cs, h')
        \<and> map billboard cs = bs"
  using calculateLoop_daily [of endD e h bs ct start po incl "[]"]
    calculateLoop_package [of h bs ct start endD p incl "[]"]
  by (simp_all add: calculateMultipleBillboards_def)

lemma foldl_js_add_finite:
  "list_all finite_num xs \<Longrightarrow> foldl js_add (Num a) xs = Num (a + sum_list (map rat_of xs))"
proof (induction xs arbitrary: a)
  case Nil
  show ?case by simp
next
  case (Cons x xs)
  then obtain r where "x = Num r" by (cases x) auto
  with Cons show ?case by (simp add: add.assoc)
qed

lemma js_sum_finite:
  "list_all finite_num xs \<Longrightarrow> js_sum xs = Num (sum_list (map rat_of xs))"
  using foldl_js_add_finite [of xs 0] by (simp add: js_sum_def)

lemma example_batch:
  "calculateMultipleBillboards example_host [example_billboard, example_billboard]
     customer_standard package (ascii ''2024-01-01'') None (Some example_package) True
   = (Inr [fst (calculatePackagePrice example_host example_billboard customer_standard
                  example_package True),
           fst (calculatePackagePrice example_host example_billboard customer_standard
                  example_package True)], example_host)"
  by (simp add: calculateMultipleBillboards_def example_calculation)

text \<open>
  Claim C4, as amended. On a list of at least one asset, the batch calculation throws,
  returning no list, in daily mode when the end date is missing or empty and in package
  mode when no package option is given. On every valid combination it returns one
  calculation per asset, in the order of the assets. On the empty asset list it returns
  the empty list whatever the other parameters are, since the check is made per asset.
\<close>

theorem calculateMultipleBillboards_contract:
  "(bs \<noteq> [] \<and> given endD = None \<longrightarrow>
      calculateMultipleBillboards h bs ct daily start endD po incl = (Inl InvalidParameters, h))
   \<and> (bs \<noteq> [] \<longrightarrow>
      calculateMultipleBillboards h bs ct package start endD None incl
        = (Inl InvalidParameters, h))
   \<and> (given endD \<noteq> None \<longrightarrow>
        (\<exists>cs h'. calculateMultipleBillboards h bs ct daily start endD po incl = (Inr cs, h')
           \<and> map billboard cs = bs \<and> length cs = length bs))
   \<and> (\<exists>cs h'. calculateMultipleBillboards h bs ct package start endD (Some p) incl = (Inr cs, h')
           \<and> map billboard cs = bs \<and> length cs = length bs)
   \<and> calculateMultipleBillboards h [] ct mode start endD po incl = (Inr [], h)"
proof -
  have t1: "calculateMultipleBillboards h bs ct daily start endD po incl
      = (Inl InvalidParameters, h)" if "bs \<noteq> []" "given endD = None"
    using that calculateMultipleBillboards_throws(1) [of endD h "hd bs" "tl bs" ct start po incl]
    by simp
  have t2: "calculateMultipleBillboards h bs ct package start endD None incl
      = (Inl InvalidParameters, h)" if "bs \<noteq> []"
    using that calculateMultipleBillboards_throws(2) [of h "hd bs" "tl bs" ct start endD incl]
    by simp
  have v1: "\<exists>cs h'. calculateMultipleBillboards h bs ct daily start endD po incl = (Inr cs, h')
           \<and> map billboard cs = bs \<and> length cs = length bs" if "given endD \<noteq> None"
  proof -
    from that obtain e where "given endD = Some e" by blast
    from calculateMultipleBillboards_valid(1) [OF this, of h bs ct start po incl]
    obtain cs h' where c: "calculateMultipleBillboards h bs ct daily start endD po incl = (Inr cs, h')"
      "map billboard cs = bs"
      by blast
    from c(2) have "length cs = length bs" by (metis length_map)
    with c show ?thesis by blast
  qed
  have v2: "\<exists>cs h'. calculateMultipleBillboards h bs ct package start endD (Some p) incl
           = (Inr cs, h') \<and> map billboard cs = bs \<and> length cs = length bs"
  proof -
    from calculateMultipleBillboards_valid(2) [of h bs ct start endD p incl]
    obtain cs h' where c:
      "calculateMultipleBillboards h bs ct package start endD (Some p) incl = (Inr cs, h')"
      "map billboard cs = bs"
      by blast
    from c(2) have "length cs = length bs" by (metis length_map)
    with c show ?thesis by blast
  qed
  have e: "calculateMultipleBillboards h [] ct mode start endD po incl = (Inr [], h)"
    by (simp add: calculateMultipleBillboards_def)
  from t1 t2 v1 v2 e show ?thesis by blast
qed

theorem calculateMultipleBillboards_contract_witness:
  "calculateMultipleBillboards example_host [example_billboard] customer_standard daily
       (ascii ''2024-01-01'') (Some []) None False = (Inl InvalidParameters, example_host)
   \<and> calculateMultipleBillboards example_host [example_billboard] customer_standard package
       (ascii ''2024-01-01'') None None False = (Inl InvalidParameters, example_host)
   \<and> (\<exists>cs h'. calculateMultipleBillboards example_host [example_billboard, example_billboard]
         customer_standard daily (ascii ''2024-01-01'') (Some (ascii ''2024-01-07'')) None False
           = (Inr cs, h')
         \<and> map billboard cs = [example_billboard, example_billboard] \<and> length cs = 2)"
proof -
  note t = calculateMultipleBillboards_contract
  have a: "[example_billboard] \<noteq> [] \<and> given (Some ([] :: jsstring)) = None" by simp
  have b: "given (Some (ascii ''2024-01-07'')) \<noteq> None" by (simp add: ascii_def)
  from t [of "[example_billboard]" "Some []" example_host customer_standard
      "ascii ''2024-01-01''" None False] a
  have 1: "calculateMultipleBillboards example_host [example_billboard] customer_standard daily
       (ascii ''2024-01-01'') (Some []) None False = (Inl InvalidParameters, example_host)"
    by blast
  from t [of "[example_billboard]" None example_host customer_standard
      "ascii ''2024-01-01''" None False]
  have 2: "calculateMultipleBillboards example_host [example_billboard] customer_standard package
       (ascii ''2024-01-01'') None None False = (Inl InvalidParameters, example_host)"
    by blast
  from t [of "[example_billboard, example_billboard]" "Some (ascii ''2024-01-07'')"
      example_host customer_standard "ascii ''2024-01-01''" None False] b
  have "\<exists>cs h'. calculateMultipleBillboards example_host [example_billboard, example_billboard]
         customer_standard daily (ascii ''2024-01-01'') (Some (ascii ''2024-01-07'')) None False
           = (Inr cs, h')
         \<and> map billboard cs = [example_billboard, example_billboard]
         \<and> length cs = length [example_billboard, example_billboard]"
    by blast
  then have 3: "\<exists>cs h'. calculateMultipleBillboards example_host
         [example_billboard, example_billboard]
         customer_standard daily (ascii ''2024-01-01'') (Some (ascii ''2024-01-07'')) None False
           = (Inr cs, h')
         \<and> map billboard cs = [example_billboard, example_billboard] \<and> length cs = 2"
    by (simp add: numeral_2_eq_2)
  from 1 2 3 show ?thesis by blast
qed

text \<open>
  Claim C4 as stated fails on the empty asset list: in daily mode without an end date,
  and in package mode without a package option, the call returns the empty list of
  calculations.
\<close>

theorem calculateMultipleBillboards_empty_batch:
  "calculateMultipleBillboards example_host [] customer_standard daily (ascii ''2024-01-01'')
      None None False = (Inr [], example_host)
   \<and> calculateMultipleBillboards example_host [] customer_standard package
      (ascii ''2024-01-01'') None None False = (Inr [], example_host)"
  by (simp add: calculateMultipleBillboards_def)

text \<open>
  Claim C5. When the batch calculation succeeds, the quote is built from the returned
  calculations: its subtotal is the sum of their subtotals, its total installation the
  sum of their installation prices and its grand total the sum of the two. For finite
  line amounts the grand total is the number \<open>\<Sum> subtotal + \<Sum> installationPrice\<close>. The
  one case without a quote is package mode with a start date whose end date the host
  cannot render: there \<^verbatim>\<open>toISOString\<close> throws.
\<close>

theorem generateQuote_totals:
  assumes "calculateMultipleBillboards h bbs (customerType info) mode start endD po incl
             = (Inr cs, h1)"
  shows "((mode = package \<and> (\<exists>p. po = Some p \<and> addDays h1 start (duration p) = None))
            \<longrightarrow> generateQuote h info bbs mode start endD po incl = (Inl RangeError, h1))
    \<and> (\<not> (mode = package \<and> (\<exists>p. po = Some p \<and> addDays h1 start (duration p) = None))
          \<longrightarrow> (\<exists>q. generateQuote h info bbs mode start endD po incl = (Inr q, h1)
                 \<and> billboards q = cs
                 \<and> quoteSubtotal q = js_sum (map subtotal cs)
                 \<and> totalInstallation q = js_sum (map installationPrice cs)
                 \<and> grandTotal q = js_add (quoteSubtotal q) (totalInstallation q)
                 \<and> grandTotal q = js_add (js_sum (map subtotal cs))
                                     (js_sum (map installationPrice cs))
                 \<and> (list_all (\<lambda>c. finite_num (subtotal c) \<and> finite_num (installationPrice c)) cs
                      \<longrightarrow> grandTotal q = Num ((\<Sum>c\<leftarrow>cs. rat_of (subtotal c))
                                               + (\<Sum>c\<leftarrow>cs. rat_of (installationPrice c))))))"
proof -
  define finalEndDate where "finalEndDate =
     (case (mode, po) of
        (package, Some p) \<Rightarrow> map_option Some (addDays h1 start (duration p))
      | (daily, p) \<Rightarrow> Some endD
      | (package, None) \<Rightarrow> Some endD)"
  define sub where "sub = foldl (\<lambda>sum calc. js_add sum (subtotal calc)) (Num 0) cs"
  define inst where
    "inst = foldl (\<lambda>sum calc. js_add sum (installationPrice calc)) (Num 0) cs"
  define quote where "quote finalEnd =
     \<lparr>quoteId = clock h1, customerInfo = info, pricingMode = mode,
      startDate = start, endDate = finalEnd,
      packageDuration = map_option label po,
      billboards = cs, quoteSubtotal = sub,
      totalInstallation = inst, grandTotal = js_add sub inst,
      currency = [0x62F, 0x2E, 0x644], createdAt = clock h1,
      validUntil = clock h1 + 30 * 24 * 60 * 60 * 1000\<rparr>" for finalEnd
  have g: "generateQuote h info bbs mode start endD po incl =
     (case finalEndDate of
        None \<Rightarrow> (Inl RangeError, h1)
      | Some finalEnd \<Rightarrow> (Inr (quote finalEnd), h1))"
    unfolding generateQuote_def assms finalEndDate_def sub_def inst_def quote_def Let_def
    by simp
  have sums: "sub = js_sum (map subtotal cs)" "inst = js_sum (map installationPrice cs)"
    by (simp_all add: sub_def inst_def js_sum_def foldl_map)
  have fin: "js_add sub inst = Num ((\<Sum>c\<leftarrow>cs. rat_of (subtotal c))
                                + (\<Sum>c\<leftarrow>cs. rat_of (installationPrice c)))"
    if "list_all (\<lambda>c. finite_num (subtotal c) \<and> finite_num (installationPrice c)) cs"
  proof -
    from that have "list_all finite_num (map subtotal cs)"
      "list_all finite_num (map installationPrice cs)"
      by (simp_all add: list_all_iff)
    then show ?thesis
      by (simp add: sums js_sum_finite comp_def)
  qed
  have fields: "billboards (quote e) = cs" "quoteSubtotal (quote e) = sub"
    "totalInstallation (quote e) = inst" "grandTotal (quote e) = js_add sub inst" for e
    by (simp_all add: quote_def)
  show ?thesis
  proof (cases "mode = package \<and> (\<exists>p. po = Some p \<and> addDays h1 start (duration p) = None)")
    case True
    then have "finalEndDate = None"
      by (auto simp: finalEndDate_def)
    with g True show ?thesis by simp
  next
    case False
    then obtain e where "finalEndDate = Some e"
      by (cases mode; cases po) (auto simp: finalEndDate_def)
    with g have "generateQuote h info bbs mode start endD po incl = (Inr (quote e), h1)"
      by simp
    with False fields [of e] sums fin show ?thesis
      by (intro conjI impI exI [of _ "quote e"]) simp_all
  qed
qed

theorem generateQuote_totals_witness:
  "\<exists>q. generateQuote example_host example_customer [example_billboard, example_billboard]
      package (ascii ''2024-01-01'') None (Some example_package) True = (Inr q, example_host)
    \<and> quoteSubtotal q = Num 48000 \<and> totalInstallation q = Num 3300
    \<and> grandTotal q = Num 51300"
proof -
  define c where "c = fst (calculatePackagePrice example_host example_billboard
    customer_standard example_package True)"
  have ct: "customerType example_customer = customer_standard"
    by (simp add: example_customer_def)
  have ad: "addDays example_host (ascii ''2024-01-01'') (duration example_package)
      = Some (ascii ''2024-01-31'')"
    by (simp add: example_host_def example_package_def)
  have batch: "calculateMultipleBillboards example_host [example_billboard, example_billboard]
     (customerType example_customer) package (ascii ''2024-01-01'') None (Some example_package)
     True = (Inr [c, c], example_host)"
    unfolding ct c_def by (rule example_batch)
  have ok: "\<not> (package = package \<and> (\<exists>p. Some example_package = Some p
      \<and> addDays example_host (ascii ''2024-01-01'') (duration p) = None))"
    using ad by simp
  from generateQuote_totals [OF batch] ok
  obtain q where q: "generateQuote example_host example_customer
      [example_billboard, example_billboard]
      package (ascii ''2024-01-01'') None (Some example_package) True = (Inr q, example_host)"
    "quoteSubtotal q = js_sum (map subtotal [c, c])"
    "totalInstallation q = js_sum (map installationPrice [c, c])"
    "grandTotal q = js_add (quoteSubtotal q) (totalInstallation q)"
    by blast
  have s: "subtotal c = Num 24000" and i: "installationPrice c = Num 1650"
    by (simp_all add: c_def example_calculation)
  from q(2) have a: "quoteSubtotal q = Num 48000" by (simp add: s js_sum_def)
  from q(3) have b: "totalInstallation q = Num 3300" by (simp add: i js_sum_def)
  from q(4) have "grandTotal q = Num 51300" by (simp add: a b)
  with q(1) a b show ?thesis by blast
qed

section \<open>Properties of the campaign statistics\<close>

lemma foldl_tally:
  "foldl tally (s, m, l) cs =
     (foldl increment s (map (bsize \<circ> billboard) cs),
      foldl increment m (map (municipality \<circ> billboard) cs),
      foldl increment l (map (level \<circ> billboard) cs))"
  by (induction cs arbitrary: s m l) (simp_all add: tally_def)

lemma breakdowns:
  "sizeBreakdown (getCampaignStats cs) = foldl increment Map.empty (map (bsize \<circ> billboard) cs)"
  "municipalityBreakdown (getCampaignStats cs)
     = foldl increment Map.empty (map (municipality \<circ> billboard) cs)"
  "levelBreakdown (getCampaignStats cs) = foldl increment Map.empty (map (level \<circ> billboard) cs)"
  by (simp_all add: getCampaignStats_def foldl_tally)

lemma average_finite:
  assumes "cs \<noteq> []" and "list_all (\<lambda>c. finite_num (dailyPrice c)) cs"
  shows "calculateAverageDailyPrice cs =
     Num (of_int \<lfloor>(\<Sum>c\<leftarrow>cs. rat_of (dailyPrice c)) / of_nat (length cs) + 1 / 2\<rfloor>)"
proof -
  from assms(2) have "list_all finite_num (map dailyPrice cs)"
    by (simp add: list_all_iff)
  then have "foldl js_add (Num 0) (map dailyPrice cs) = Num (\<Sum>c\<leftarrow>cs. rat_of (dailyPrice c))"
    using foldl_js_add_finite [of "map dailyPrice cs" 0] by (simp add: comp_def)
  with assms(1) show ?thesis
    by (simp add: calculateAverageDailyPrice_def foldl_map [symmetric])
qed

text \<open>The fields of the statistics other than the breakdown objects.\<close>

lemma getCampaignStats_basic:
  "totalBillboards (getCampaignStats cs) = length cs"
  "campaignDays (getCampaignStats cs) = (case cs of [] \<Rightarrow> Num 0 | c # rest \<Rightarrow> totalDays c)"
  "averageDailyPrice (getCampaignStats cs) =
     (if cs = [] then Num 0
      else Math_round (js_div (js_sum (map dailyPrice cs)) (Num (of_nat (length cs)))))"
  "getCampaignStats [] =
     \<lparr>totalBillboards = 0, campaignDays = Num 0, averageDailyPrice = Num 0,
      sizeBreakdown = Map.empty, municipalityBreakdown = Map.empty,
      levelBreakdown = Map.empty\<rparr>"
  by (simp_all add: getCampaignStats_def calculateAverageDailyPrice_def js_sum_def foldl_map
      split: prod.splits)

text \<open>
  Keys that are not names of inherited properties are counted: the object holds, for
  every key that occurs, its number of occurrences, and nothing else.
\<close>

lemma increment_plain:
  assumes "a \<notin> set inherited_keys"
  shows "increment (\<lambda>k. map_option Count (m k)) a
           = (\<lambda>k. map_option Count
                 ((m(a \<mapsto> (case m a of None \<Rightarrow> 0 | Some n \<Rightarrow> n) + 1)) k))"
proof -
  from assms have "a \<noteq> proto_key"
    by (auto simp: inherited_keys_def)
  with assms show ?thesis
    by (cases "m a") (auto simp: increment_def fun_eq_iff)
qed

lemma foldl_increment_plain:
  assumes "set ks \<inter> set inherited_keys = {}"
  shows "foldl increment (\<lambda>k. map_option Count (m k)) ks k =
     (if k \<in> set ks
      then Some (Count ((case m k of None \<Rightarrow> 0 | Some n \<Rightarrow> n) + count_list ks k))
      else map_option Count (m k))"
  using assms
proof (induction ks arbitrary: m)
  case Nil
  show ?case by simp
next
  case (Cons a ks)
  let ?m = "m(a \<mapsto> (case m a of None \<Rightarrow> 0 | Some n \<Rightarrow> n) + 1)"
  from Cons.prems have a: "a \<notin> set inherited_keys"
    and ks: "set ks \<inter> set inherited_keys = {}"
    by auto
  have "foldl increment (\<lambda>k. map_option Count (m k)) (a # ks) k
      = foldl increment (\<lambda>k. map_option Count (?m k)) ks k"
    by (simp only: foldl_Cons increment_plain [OF a])
  also have "\<dots> =
     (if k \<in> set ks
      then Some (Count ((case ?m k of None \<Rightarrow> 0 | Some n \<Rightarrow> n) + count_list ks k))
      else map_option Count (?m k))"
    using ks by (rule Cons.IH)
  also have "\<dots> =
     (if k \<in> set (a # ks)
      then Some (Count ((case m k of None \<Rightarrow> 0 | Some n \<Rightarrow> n) + count_list (a # ks) k))
      else map_option Count (m k))"
    by (simp add: count_list_0_iff)
  finally show ?case .
qed

lemma counted_plain:
  assumes "set ks \<inter> set inherited_keys = {}"
  shows "foldl increment Map.empty ks k =
     (if k \<in> set ks then Some (Count (count_list ks k)) else None)"
  using foldl_increment_plain [OF assms, of Map.empty k] by simp

lemma count_list_positive: "k \<in> set ks \<Longrightarrow> 1 \<le> count_list ks k"
  using count_list_0_iff [of ks k] by (cases "count_list ks k") auto

lemma sum_count_list: "(\<Sum>k \<in> set ks. count_list ks k) = length ks"
  using sum_list_map_eq_sum_count [of "\<lambda>_. 1::nat" ks] by (simp add: sum_list_triv)

lemma counted_plain_sum:
  assumes "set ks \<inter> set inherited_keys = {}"
  shows "dom (foldl increment Map.empty ks) = set ks"
    and "(\<Sum>k \<in> dom (foldl increment Map.empty ks).
            (case foldl increment Map.empty ks k of Some (Count n) \<Rightarrow> n | _ \<Rightarrow> 0)) = length ks"
    and "foldl increment Map.empty ks k = Some e \<Longrightarrow> \<exists>n. e = Count n \<and> 1 \<le> n"
proof -
  show d: "dom (foldl increment Map.empty ks) = set ks"
    by (auto simp: counted_plain [OF assms] dom_def)
  have "(\<Sum>k \<in> set ks. (case foldl increment Map.empty ks k of Some (Count n) \<Rightarrow> n | _ \<Rightarrow> 0))
      = (\<Sum>k \<in> set ks. count_list ks k)"
    by (rule sum.cong) (simp_all add: counted_plain [OF assms])
  then show "(\<Sum>k \<in> dom (foldl increment Map.empty ks).
            (case foldl increment Map.empty ks k of Some (Count n) \<Rightarrow> n | _ \<Rightarrow> 0)) = length ks"
    by (simp add: d sum_count_list)
  show "\<exists>n. e = Count n \<and> 1 \<le> n" if "foldl increment Map.empty ks k = Some e"
    using that count_list_positive [of k ks]
    by (auto simp: counted_plain [OF assms] split: if_splits)
qed

lemmas stats_simps = breakdowns increment_def inherited_simps constructor_line_def
  proto_line_def example_line_def example_billboard_def

text \<open>
  Claim C9. The campaign statistics are to give three breakdown maps that count the
  occurrences of each size, municipality and level. The code counts with
  \<^verbatim>\<open>m[k] = (m[k] || 0) + 1\<close> on an object that starts as \<^verbatim>\<open>{}\<close>: for one
  billboard of size \<^verbatim>\<open>constructor\<close> the first read finds the inherited function and
  the object stores a string where the count 1 belongs; for one billboard of size
  \<^verbatim>\<open>__proto__\<close> it stores nothing. The other fields (number of billboards, days of
  the first item, rounded mean of the daily prices, 0 for the empty list) are as claimed.
\<close>

theorem getCampaignStats_inherited_size:
  "bsize (billboard constructor_line) = ascii ''constructor''
   \<and> sizeBreakdown (getCampaignStats [constructor_line]) (ascii ''constructor'') = Some (Text 1)
   \<and> bsize (billboard proto_line) = proto_key
   \<and> sizeBreakdown (getCampaignStats [proto_line]) proto_key = None"
  by (simp add: stats_simps)

text \<open>
  Claim C10. In each breakdown map every stored count is to be at least 1 and the counts
  are to add up to \<open>totalBillboards\<close>. For one billboard of size \<^verbatim>\<open>__proto__\<close> the
  size breakdown stays empty, so its counts add up to 0 while \<open>totalBillboards\<close> is 1; for
  two billboards of size \<^verbatim>\<open>constructor\<close> the one stored value is a string, not a
  count.
\<close>

theorem getCampaignStats_counts_lost:
  "totalBillboards (getCampaignStats [proto_line]) = 1
   \<and> sizeBreakdown (getCampaignStats [proto_line]) = Map.empty
   \<and> totalBillboards (getCampaignStats [constructor_line, constructor_line]) = 2
   \<and> sizeBreakdown (getCampaignStats [constructor_line, constructor_line])
        (ascii ''constructor'') = Some (Text 2)"
  by (simp add: stats_simps getCampaignStats_basic)

section \<open>Properties of the import\<close>

lemma split_nonempty: "split sep s \<noteq> []"
  by (induction s) (auto split: list.splits)

lemma parse_lines_filter:
  "parse_lines headers ls rows = rows @ filter accepted (map (parse_line headers) ls)"
  by (induction ls arbitrary: rows) (simp_all add: Let_def)

lemma parsed_rows_filter:
  "parsed_rows csv =
     filter accepted
       (map (parse_line (split comma (hd (split newline (trim csv)))))
            (tl (split newline (trim csv))))"
proof (cases "split newline (trim csv)")
  case Nil
  then show ?thesis using split_nonempty [of newline "trim csv"] by simp
next
  case (Cons first rest)
  then show ?thesis by (simp add: parsed_rows_def parse_lines_filter)
qed

text \<open>Assigning fields one after the other: the last assignment to a key decides.\<close>

lemma set_field_apply:
  "set_field values row (k, j) =
     (if k = proto_key then row else row(k \<mapsto> field_value k (cell values j)))"
  by (simp add: set_field_def)

lemma zip_snoc_upt:
  "zip (ks @ [k]) [0..<length (ks @ [k])] = zip ks [0..<length ks] @ [(k, length ks)]"
  by simp

lemma assign_fields_last:
  assumes "i < length ks" and "ks ! i \<noteq> proto_key" and "ks ! i \<notin> set (drop (Suc i) ks)"
  shows "foldl (set_field values) m (zip ks [0..<length ks]) (ks ! i)
           = Some (field_value (ks ! i) (cell values i))"
  using assms
proof (induction ks arbitrary: i rule: rev_induct)
  case Nil
  then show ?case by simp
next
  case (snoc k ks)
  show ?case
  proof (cases "i = length ks")
    case True
    with snoc.prems show ?thesis unfolding zip_snoc_upt by (simp add: set_field_apply)
  next
    case False
    with snoc.prems have i: "i < length ks" by simp
    with snoc.prems have "ks ! i \<noteq> k" "ks ! i \<noteq> proto_key"
      "ks ! i \<notin> set (drop (Suc i) ks)"
      by (auto simp: nth_append)
    with snoc.IH [OF i] i show ?thesis
      unfolding zip_snoc_upt by (simp add: nth_append set_field_apply)
  qed
qed



lemma parse_line_field:
  assumes "i < length headers" and "headers ! i \<noteq> proto_key"
    and "headers ! i \<notin> set (drop (Suc i) headers)"
  shows "get (parse_line headers line) (headers ! i)
           = field_value (headers ! i) (cell (split comma line) i)"
  using assign_fields_last [OF assms, of "split comma line" Map.empty]
  by (simp add: parse_line_def get_def)












lemmas key_defs = key_size_def key_level_def key_customer_def key_id_def key_oneMonth_def
  key_twoMonths_def key_threeMonths_def key_sixMonths_def key_oneYear_def key_oneDay_def

lemma text_keys:
  "field_value key_size v = text_value v"
  "field_value key_level v = text_value v"
  "field_value key_customer v = text_value v"
  by (simp_all add: field_value_def price_headers_def key_defs)











lemmas import_simps = parse_line_def set_field_def field_value_def cell_def id_value_def
  price_value_def text_value_def parseInt_of_def parseInt_def price_headers_def
  trim_def is_space_def comma_def key_defs proto_key_def ascii_def get_def upt_rec
  is_digit_def digit_of_def digits_value_def accepted_def




section \<open>Export followed by import\<close>

lemma split_plain: "sep \<notin> set x \<Longrightarrow> split sep x = [x]"
  by (induction x) auto

lemma split_append_sep: "sep \<notin> set x \<Longrightarrow> split sep (x @ sep # rest) = x # split sep rest"
  by (induction x) auto

lemma split_join:
  "xs \<noteq> [] \<Longrightarrow> \<forall>x \<in> set xs. sep \<notin> set x \<Longrightarrow> split sep (join sep xs) = xs"
proof (induction sep xs rule: join.induct)
  case (1 sep)
  then show ?case by simp
next
  case (2 sep x)
  then show ?case by (simp add: split_plain)
next
  case (3 sep x y ys)
  then show ?case by (simp add: split_append_sep)
qed

lemma set_join: "set (join sep xs) \<subseteq> insert sep (\<Union>x \<in> set xs. set x)"
  by (induction sep xs rule: join.induct) auto

lemma hd_join: "x \<noteq> [] \<Longrightarrow> hd (join sep (x # xs)) = hd x"
  by (cases xs) simp_all

lemma join_nonempty: "x \<noteq> [] \<Longrightarrow> join sep (x # xs) \<noteq> []"
  by (cases xs) simp_all

lemma last_join:
  "xs \<noteq> [] \<Longrightarrow> last xs \<noteq> [] \<Longrightarrow> last (join sep xs) = last (last xs)"
proof (induction sep xs rule: join.induct)
  case (1 sep)
  then show ?case by simp
next
  case (2 sep x)
  then show ?case by simp
next
  case (3 sep x y ys)
  then have "join sep (y # ys) \<noteq> []"
    by (cases ys) (auto split: if_splits)
  with 3 show ?case by simp
qed

lemma last_join_empty:
  "xs \<noteq> [] \<Longrightarrow> last (join sep (xs @ [[]])) = sep"
proof (induction sep xs rule: join.induct)
  case (1 sep)
  then show ?case by simp
next
  case (2 sep x)
  then show ?case by simp
next
  case (3 sep x y ys)
  have "join sep ((y # ys) @ [[]]) \<noteq> []"
    by (cases ys) simp_all
  with 3 show ?case by simp
qed

lemma trim_id:
  assumes "s \<noteq> []" and "\<not> is_space (hd s)" and "\<not> is_space (last s)"
  shows "trim s = s"
proof -
  from assms have "dropWhile is_space s = s"
    by (cases s) simp_all
  moreover from assms have "dropWhile is_space (rev s) = rev s"
    by (cases "rev s") (simp_all add: last_rev [symmetric] hd_rev)
  ultimately show ?thesis by (simp add: trim_def)
qed

lemma trim_empty: "trim [] = []"
  by (simp add: trim_def)

section \<open>Printing and parsing whole numbers\<close>

lemma decimal_digits: "c \<in> set (decimal n) \<Longrightarrow> 0x30 \<le> c \<and> c \<le> 0x39"
proof (induction n arbitrary: c rule: decimal.induct)
  case (1 n)
  show ?case
  proof (cases "n < 10")
    case True
    with "1.prems" show ?thesis by (simp add: decimal.simps [of n])
  next
    case False
    with "1.prems" have "c \<in> set (decimal (n div 10)) \<or> c = 0x30 + n mod 10"
      by (auto simp: decimal.simps [of n])
    then show ?thesis
    proof
      assume "c \<in> set (decimal (n div 10))"
      with False "1.IH" show ?thesis by blast
    next
      assume c: "c = 0x30 + n mod 10"
      have "n mod 10 < 10" by simp
      with c show ?thesis by linarith
    qed
  qed
qed

lemma decimal_nonempty: "decimal n \<noteq> []"
  by (simp add: decimal.simps [of n])

lemma digit_is_digit: "0x30 \<le> c \<and> c \<le> 0x39 \<Longrightarrow> is_digit 10 c"
  by (auto simp: is_digit_def digit_of_def)

lemma digit_not_space: "0x30 \<le> c \<and> c \<le> 0x39 \<Longrightarrow> \<not> is_space c"
  by (auto simp: is_space_def)

lemma digits_value_snoc:
  "digits_value radix (z @ [c]) =
     digits_value radix z * radix + (case digit_of c of None \<Rightarrow> 0 | Some d \<Rightarrow> d)"
  by (simp add: digits_value_def)

lemma digit_of_digit: "d < 10 \<Longrightarrow> digit_of (0x30 + d) = Some d"
  by (simp add: digit_of_def)

lemma digits_value_decimal: "digits_value 10 (decimal n) = n"
proof (induction n rule: decimal.induct)
  case (1 n)
  show ?case
  proof (cases "n < 10")
    case True
    then show ?thesis
      by (simp add: decimal.simps [of n] digits_value_def digit_of_digit)
  next
    case False
    have "digit_of (0x30 + n mod 10) = Some (n mod 10)"
      by (rule digit_of_digit) simp
    with False "1.IH" show ?thesis
      by (simp add: decimal.simps [of n] digits_value_snoc)
  qed
qed

lemma takeWhile_decimal: "takeWhile (is_digit 10) (decimal n) = decimal n"
  using decimal_digits digit_is_digit by (auto simp: takeWhile_eq_all_conv)

lemma strip_prefix_digits:
  assumes "\<forall>c \<in> set s. 0x30 \<le> c \<and> c \<le> 0x39"
  shows "strip_prefix s = (10, s)"
proof (cases s)
  case Nil
  then show ?thesis by simp
next
  case (Cons a t)
  show ?thesis
  proof (cases t)
    case Nil
    with Cons show ?thesis by simp
  next
    case (Cons b u)
    with assms \<open>s = a # t\<close> have "0x30 \<le> b \<and> b \<le> 0x39" by simp
    then have "b \<noteq> 0x78 \<and> b \<noteq> 0x58" by linarith
    with Cons \<open>s = a # t\<close> show ?thesis by simp
  qed
qed

lemma strip_sign_digits:
  assumes "s \<noteq> []" and "\<forall>c \<in> set s. 0x30 \<le> c \<and> c \<le> 0x39"
  shows "strip_sign s = (False, s)"
proof (cases s)
  case Nil
  with assms show ?thesis by simp
next
  case (Cons a t)
  with assms have "0x30 \<le> a \<and> a \<le> 0x39" by simp
  then have "a \<noteq> 0x2D \<and> a \<noteq> 0x2B" by linarith
  with Cons show ?thesis by simp
qed

lemma parseInt_digits:
  "parseInt (decimal n) = Num (of_nat n)"
proof -
  have d: "\<forall>c \<in> set (decimal n). 0x30 \<le> c \<and> c \<le> 0x39"
    using decimal_digits by blast
  have "\<not> is_space (hd (decimal n))"
    using d decimal_nonempty [of n] digit_not_space by (metis hd_in_set)
  then have "dropWhile is_space (decimal n) = decimal n"
    using decimal_nonempty [of n] by (cases "decimal n") simp_all
  then show ?thesis
    by (simp add: parseInt_def strip_sign_digits [OF decimal_nonempty d]
        strip_prefix_digits [OF d] takeWhile_decimal decimal_nonempty
        digits_value_decimal)
qed

lemma parseInt_minus_digits:
  "parseInt (0x2D # decimal n) = Num (- of_nat n)"
proof -
  have d: "\<forall>c \<in> set (decimal n). 0x30 \<le> c \<and> c \<le> 0x39"
    using decimal_digits by blast
  have "\<not> is_space 0x2D" by (simp add: is_space_def)
  then show ?thesis
    by (simp add: parseInt_def strip_prefix_digits [OF d] takeWhile_decimal
        decimal_nonempty digits_value_decimal)
qed

lemma parseInt_int_text: "parseInt (int_text i) = Num (of_int i)"
proof (cases "i < 0")
  case True
  then have "of_nat (nat (- i)) = - (of_int i :: rat)"
    by (metis neg_le_0_iff_le of_int_minus of_nat_nat order_less_imp_le minus_minus)
  with True show ?thesis by (simp add: int_text_def parseInt_minus_digits)
next
  case False
  then show ?thesis by (simp add: int_text_def parseInt_digits)
qed

lemma int_text_nonempty: "int_text i \<noteq> []"
  by (simp add: int_text_def decimal_nonempty)

lemma int_text_chars: "c \<in> set (int_text i) \<Longrightarrow> c = 0x2D \<or> (0x30 \<le> c \<and> c \<le> 0x39)"
  using decimal_digits by (auto simp: int_text_def split: if_splits)

lemma int_text_free: "comma \<notin> set (int_text i)" "newline \<notin> set (int_text i)"
  using int_text_chars [of comma i] int_text_chars [of newline i]
  by (auto simp: comma_def newline_def)

lemma int_text_last: "0x30 \<le> last (int_text i) \<and> last (int_text i) \<le> 0x39"
proof -
  have "last (int_text i) = last (decimal (nat \<bar>i\<bar>))"
    by (simp add: int_text_def decimal_nonempty)
  moreover have "last (decimal (nat \<bar>i\<bar>)) \<in> set (decimal (nat \<bar>i\<bar>))"
    using decimal_nonempty by simp
  ultimately show ?thesis using decimal_digits by metis
qed

lemma not_space_text: "c = 0x2D \<or> (0x30 \<le> c \<and> c \<le> 0x39) \<Longrightarrow> \<not> is_space c"
  by (auto simp: is_space_def)


lemma int_text_hd: "hd (int_text i) = 0x2D \<or> (0x30 \<le> hd (int_text i) \<and> hd (int_text i) \<le> 0x39)"
  using int_text_chars [of "hd (int_text i)" i] int_text_nonempty [of i] by simp

lemma trim_int_text: "trim (int_text i) = int_text i"
proof (rule trim_id)
  show "int_text i \<noteq> []" by (rule int_text_nonempty)
  show "\<not> is_space (hd (int_text i))"
    using int_text_hd [of i] by (rule not_space_text)
  show "\<not> is_space (last (int_text i))"
    using int_text_last [of i] by (simp add: not_space_text)
qed

section \<open>One exported line\<close>

text \<open>The whole number that a price or id cell carries.\<close>

lemma whole_cases:
  assumes "whole_or_absent v"
  obtains "v = JUndefined" | "v = JNull"
    | n :: int where "v = JNum (Num (of_int n))" and "\<bar>of_int n :: rat\<bar> < 10 ^ 21"
proof (cases v)
  case JUndefined
  then show ?thesis using that by blast
next
  case JNull
  then show ?thesis using that by blast
next
  case (JNum x)
  with assms obtain r where r: "x = Num r" "of_int \<lfloor>r\<rfloor> = r" "\<bar>r\<bar> < 10 ^ 21"
    by (cases x) auto
  then have "v = JNum (Num (of_int \<lfloor>r\<rfloor>))" "\<bar>of_int \<lfloor>r\<rfloor> :: rat\<bar> < 10 ^ 21"
    using JNum by (simp_all only:)
  then show ?thesis using that by blast
next
  case (JStr s)
  with assms show ?thesis by simp
qed

lemma Number_toString_whole:
  "\<bar>of_int n :: rat\<bar> < 10 ^ 21 \<Longrightarrow> Number_toString h (Num (of_int n)) = int_text n"
  by (simp add: Number_toString_def)

lemma price_cell:
  assumes "whole_or_absent v"
  shows "\<exists>n::int. element_text h (val_or v (JNum (Num 0))) = int_text n
           \<and> number_or_zero v = Num (of_int n)"
  using assms
proof (cases v rule: whole_cases)
  case 1
  have "element_text h (val_or JUndefined (JNum (Num 0))) = int_text 0"
    using Number_toString_whole [of 0 h] by (simp add: val_or_def)
  with 1 show ?thesis by (intro exI [of _ 0]) simp
next
  case 2
  have "element_text h (val_or JNull (JNum (Num 0))) = int_text 0"
    using Number_toString_whole [of 0 h] by (simp add: val_or_def)
  with 2 show ?thesis by (intro exI [of _ 0]) simp
next
  case (3 n)
  show ?thesis
  proof (cases "n = 0")
    case True
    have "element_text h (val_or (JNum (Num 0)) (JNum (Num 0))) = int_text 0"
      using Number_toString_whole [of 0 h] by (simp add: val_or_def)
    with 3 True show ?thesis by (intro exI [of _ 0]) simp
  next
    case False
    with 3 have "element_text h (val_or v (JNum (Num 0))) = int_text n"
      using Number_toString_whole [of n h] by (simp add: val_or_def)
    with 3 show ?thesis by (intro exI [of _ n]) simp
  qed
qed

lemma id_cell:
  assumes "whole_or_absent v"
  shows "(\<not> truthy v \<and> element_text h (val_or v (JStr [])) = [])
       \<or> (\<exists>n::int. n \<noteq> 0 \<and> v = JNum (Num (of_int n))
             \<and> element_text h (val_or v (JStr [])) = int_text n)"
  using assms
proof (cases v rule: whole_cases)
  case 1
  then show ?thesis by (simp add: val_or_def)
next
  case 2
  then show ?thesis by (simp add: val_or_def)
next
  case (3 n)
  show ?thesis
  proof (cases "n = 0")
    case True
    with 3 show ?thesis by (simp add: val_or_def)
  next
    case False
    with 3 have "element_text h (val_or v (JStr [])) = int_text n"
      using Number_toString_whole [of n h] by (simp add: val_or_def)
    with 3 False show ?thesis by blast
  qed
qed


lemma plain_text_cases:
  assumes "plain_text v"
  obtains a where "v = JStr a" and "plain a"
  using assms by (cases v) simp_all

lemma export_texts:
  assumes "exportable r"
  obtains a b c n1 n2 n3 n4 n5 n6 tid where
    "map (element_text h) (export_cells r)
        = [a, b, c, int_text n1, int_text n2, int_text n3, int_text n4, int_text n5,
           int_text n6, tid]"
    and "plain a" and "plain b" and "plain c"
    and "row_view r
        = [JStr a, JStr b, JStr c, JNum (Num (of_int n1)), JNum (Num (of_int n2)),
           JNum (Num (of_int n3)), JNum (Num (of_int n4)), JNum (Num (of_int n5)),
           JNum (Num (of_int n6)), id_value (Some tid)]"
    and "tid = [] \<or> (\<exists>n. tid = int_text n)"
proof -
  from assms obtain a b c where abc: "get r key_size = JStr a" "plain a"
    "get r key_level = JStr b" "plain b" "get r key_customer = JStr c" "plain c"
    unfolding exportable_def by (metis plain_text_cases)
  from assms have w: "whole_or_absent (get r key_oneMonth)" "whole_or_absent (get r key_twoMonths)"
    "whole_or_absent (get r key_threeMonths)" "whole_or_absent (get r key_sixMonths)"
    "whole_or_absent (get r key_oneYear)" "whole_or_absent (get r key_oneDay)"
    "whole_or_absent (get r key_id)"
    by (simp_all add: exportable_def price_headers_def)
  obtain n1 where n1: "element_text h (val_or (get r key_oneMonth) (JNum (Num 0))) = int_text n1"
    "number_or_zero (get r key_oneMonth) = Num (of_int n1)"
    using price_cell [OF w(1), of h] by blast
  obtain n2 where n2: "element_text h (val_or (get r key_twoMonths) (JNum (Num 0))) = int_text n2"
    "number_or_zero (get r key_twoMonths) = Num (of_int n2)"
    using price_cell [OF w(2), of h] by blast
  obtain n3 where n3: "element_text h (val_or (get r key_threeMonths) (JNum (Num 0))) = int_text n3"
    "number_or_zero (get r key_threeMonths) = Num (of_int n3)"
    using price_cell [OF w(3), of h] by blast
  obtain n4 where n4: "element_text h (val_or (get r key_sixMonths) (JNum (Num 0))) = int_text n4"
    "number_or_zero (get r key_sixMonths) = Num (of_int n4)"
    using price_cell [OF w(4), of h] by blast
  obtain n5 where n5: "element_text h (val_or (get r key_oneYear) (JNum (Num 0))) = int_text n5"
    "number_or_zero (get r key_oneYear) = Num (of_int n5)"
    using price_cell [OF w(5), of h] by blast
  obtain n6 where n6: "element_text h (val_or (get r key_oneDay) (JNum (Num 0))) = int_text n6"
    "number_or_zero (get r key_oneDay) = Num (of_int n6)"
    using price_cell [OF w(6), of h] by blast
  define tid where "tid = element_text h (val_or (get r key_id) (JStr []))"
  have parse_empty: "parseInt [] = NaN"
    by (simp add: parseInt_def)
  from id_cell [OF w(7), of h]
  have idc: "(tid = [] \<or> (\<exists>n. tid = int_text n))
      \<and> (if truthy (get r key_id) then get r key_id else JUndefined) = id_value (Some tid)"
  proof
    assume "\<not> truthy (get r key_id) \<and> element_text h (val_or (get r key_id) (JStr [])) = []"
    then show ?thesis
      by (simp add: tid_def id_value_def parseInt_of_def parse_empty)
  next
    assume "\<exists>n::int. n \<noteq> 0 \<and> get r key_id = JNum (Num (of_int n))
             \<and> element_text h (val_or (get r key_id) (JStr [])) = int_text n"
    then obtain n :: int where n: "n \<noteq> 0" "get r key_id = JNum (Num (of_int n))"
      "tid = int_text n"
      unfolding tid_def by blast
    then have "id_value (Some tid) = JNum (Num (of_int n))"
      by (simp add: id_value_def parseInt_of_def parseInt_int_text)
    with n show ?thesis by auto
  qed
  have texts: "map (element_text h) (export_cells r)
        = [a, b, c, int_text n1, int_text n2, int_text n3, int_text n4, int_text n5,
           int_text n6, tid]"
    by (simp add: export_cells_def abc n1 n2 n3 n4 n5 n6 tid_def)
  have view: "row_view r
        = [JStr a, JStr b, JStr c, JNum (Num (of_int n1)), JNum (Num (of_int n2)),
           JNum (Num (of_int n3)), JNum (Num (of_int n4)), JNum (Num (of_int n5)),
           JNum (Num (of_int n6)), id_value (Some tid)]"
    using idc by (simp add: row_view_def price_headers_def abc n1 n2 n3 n4 n5 n6)
  from idc have t: "tid = [] \<or> (\<exists>n. tid = int_text n)" by simp
  show ?thesis
    by (rule that [OF texts abc(2) abc(4) abc(6) view t])
qed


section \<open>Reading an exported line back\<close>

lemma parse_line_distinct:
  assumes "distinct hs" and "length vs = length hs" and "vs \<noteq> []"
    and "\<forall>v \<in> set vs. comma \<notin> set v" and "proto_key \<notin> set hs"
  shows "map (get (parse_line hs (join comma vs))) hs
           = map (\<lambda>(k, t). field_value k (Some (trim t))) (zip hs vs)"
proof (rule nth_equalityI)
  show "length (map (get (parse_line hs (join comma vs))) hs)
          = length (map (\<lambda>(k, t). field_value k (Some (trim t))) (zip hs vs))"
    using assms(2) by simp
next
  fix i
  assume "i < length (map (get (parse_line hs (join comma vs))) hs)"
  then have i: "i < length hs" by simp
  from assms(1) i have "hs ! i \<notin> set (drop (Suc i) hs)"
    by (metis Cons_nth_drop_Suc distinct.simps(2) distinct_drop)
  moreover from assms(5) i have "hs ! i \<noteq> proto_key"
    by (metis nth_mem)
  ultimately have "get (parse_line hs (join comma vs)) (hs ! i)
      = field_value (hs ! i) (cell (split comma (join comma vs)) i)"
    using i by (intro parse_line_field)
  moreover have "split comma (join comma vs) = vs"
    using assms(3,4) by (rule split_join)
  ultimately show "map (get (parse_line hs (join comma vs))) hs ! i
      = map (\<lambda>(k, t). field_value k (Some (trim t))) (zip hs vs) ! i"
    using i assms(2) by (simp add: cell_def)
qed

lemma export_headers_distinct: "distinct export_headers"
  by (simp add: export_headers_def key_defs)

lemma export_headers_plain: "proto_key \<notin> set export_headers"
  by (simp add: export_headers_def key_defs proto_key_def ascii_def)

lemma export_headers_free: "\<forall>x \<in> set export_headers. comma \<notin> set x"
  by (simp add: export_headers_def key_defs comma_def)

lemma header_line_free: "newline \<notin> set (join comma export_headers)"
  by (simp add: export_headers_def key_defs comma_def newline_def)

lemma field_value_text:
  assumes "plain a"
  shows "field_value key_size (Some (trim a)) = JStr a"
    "field_value key_level (Some (trim a)) = JStr a"
    "field_value key_customer (Some (trim a)) = JStr a"
  using assms by (simp_all add: text_keys text_value_def plain_def)

lemma field_value_price:
  assumes "k \<in> set price_headers"
  shows "field_value k (Some (trim (int_text n))) = JNum (Num (of_int n))"
proof -
  from assms have "k \<noteq> key_id"
    by (auto simp: price_headers_def key_defs)
  with assms show ?thesis
    by (simp add: field_value_def price_value_def parseInt_of_def trim_int_text
        parseInt_int_text)
qed

lemma field_value_id:
  assumes "tid = [] \<or> (\<exists>n. tid = int_text n)"
  shows "field_value key_id (Some (trim tid)) = id_value (Some tid)"
proof -
  from assms have "trim tid = tid"
    using trim_empty trim_int_text by auto
  then show ?thesis by (simp add: field_value_def)
qed

lemma parse_exported_line:
  assumes "exportable r"
  shows "map (get (parse_line export_headers
                     (join comma (map (element_text h) (export_cells r))))) export_headers
           = row_view r"
proof (rule export_texts [OF assms, of h])
  fix a b c n1 n2 n3 n4 n5 n6 tid
  assume texts: "map (element_text h) (export_cells r)
        = [a, b, c, int_text n1, int_text n2, int_text n3, int_text n4, int_text n5,
           int_text n6, tid]"
    and p: "plain a" "plain b" "plain c"
    and view: "row_view r
        = [JStr a, JStr b, JStr c, JNum (Num (of_int n1)), JNum (Num (of_int n2)),
           JNum (Num (of_int n3)), JNum (Num (of_int n4)), JNum (Num (of_int n5)),
           JNum (Num (of_int n6)), id_value (Some tid)]"
    and tid: "tid = [] \<or> (\<exists>n. tid = int_text n)"
  let ?vs = "[a, b, c, int_text n1, int_text n2, int_text n3, int_text n4, int_text n5,
           int_text n6, tid]"
  from tid have tid_free: "comma \<notin> set tid"
    using int_text_free(1) by auto
  have free: "\<forall>v \<in> set ?vs. comma \<notin> set v"
    using p tid_free by (simp add: plain_def int_text_free)
  have "map (get (parse_line export_headers (join comma ?vs))) export_headers
           = map (\<lambda>(k, t). field_value k (Some (trim t))) (zip export_headers ?vs)"
    using export_headers_distinct _ _ free export_headers_plain
    by (rule parse_line_distinct) (simp_all add: export_headers_def)
  also have "\<dots> = [JStr a, JStr b, JStr c, JNum (Num (of_int n1)), JNum (Num (of_int n2)),
           JNum (Num (of_int n3)), JNum (Num (of_int n4)), JNum (Num (of_int n5)),
           JNum (Num (of_int n6)), id_value (Some tid)]"
    using p tid
    by (simp add: export_headers_def field_value_text field_value_price field_value_id
        price_headers_def)
  finally show "map (get (parse_line export_headers
                     (join comma (map (element_text h) (export_cells r))))) export_headers
           = row_view r"
    by (simp add: texts view)
qed


section \<open>The exported text\<close>

lemma exported_line:
  assumes "exportable r"
  shows "newline \<notin> set (join comma (map (element_text h) (export_cells r)))"
    and "join comma (map (element_text h) (export_cells r)) \<noteq> []"
    and "\<not> is_space (last (join comma (map (element_text h) (export_cells r))))"
proof -
  have "newline \<notin> set (join comma (map (element_text h) (export_cells r)))
    \<and> join comma (map (element_text h) (export_cells r)) \<noteq> []
    \<and> \<not> is_space (last (join comma (map (element_text h) (export_cells r))))"
  proof (rule export_texts [OF assms, of h])
    fix a b c n1 n2 n3 n4 n5 n6 tid
    assume texts: "map (element_text h) (export_cells r)
        = [a, b, c, int_text n1, int_text n2, int_text n3, int_text n4, int_text n5,
           int_text n6, tid]"
      and p: "plain a" "plain b" "plain c"
      and tid: "tid = [] \<or> (\<exists>n. tid = int_text n)"
    let ?front = "[a, b, c, int_text n1, int_text n2, int_text n3, int_text n4, int_text n5,
           int_text n6]"
    from tid have tid_free: "newline \<notin> set tid"
      using int_text_free(2) by auto
    have "\<forall>v \<in> set (?front @ [tid]). newline \<notin> set v"
      using p tid_free by (simp add: plain_def int_text_free)
    moreover have "newline \<noteq> comma"
      by (simp add: newline_def comma_def)
    ultimately have 1: "newline \<notin> set (join comma (?front @ [tid]))"
      using set_join [of comma "?front @ [tid]"] by blast
    from p(1) have "a \<noteq> []" by (simp add: plain_def)
    then have 2: "join comma (?front @ [tid]) \<noteq> []"
      using join_nonempty [of a comma] by simp
    have 3: "\<not> is_space (last (join comma (?front @ [tid])))"
    proof (cases "tid = []")
      case True
      have "last (join comma (?front @ [[]])) = comma"
        by (rule last_join_empty) simp
      with True show ?thesis by (simp add: is_space_def comma_def)
    next
      case False
      with tid obtain n where n: "tid = int_text n" by blast
      have "last (join comma (?front @ [tid])) = last (last (?front @ [tid]))"
        by (rule last_join) (simp_all add: False)
      with n have "last (join comma (?front @ [tid])) = last (int_text n)" by simp
      with int_text_last [of n] show ?thesis by (simp add: not_space_text)
    qed
    from 1 2 3 show "newline \<notin> set (join comma (map (element_text h) (export_cells r)))
      \<and> join comma (map (element_text h) (export_cells r)) \<noteq> []
      \<and> \<not> is_space (last (join comma (map (element_text h) (export_cells r))))"
      by (simp add: texts)
  qed
  then show "newline \<notin> set (join comma (map (element_text h) (export_cells r)))"
    and "join comma (map (element_text h) (export_cells r)) \<noteq> []"
    and "\<not> is_space (last (join comma (map (element_text h) (export_cells r))))"
    by simp_all
qed

lemma header_line_ends:
  "join comma export_headers \<noteq> []"
  "\<not> is_space (hd (join comma export_headers))"
  "\<not> is_space (last (join comma export_headers))"
  by (simp_all add: export_headers_def key_defs comma_def is_space_def)

lemma exported_lines:
  assumes "list_all exportable pricingData"
  shows "split newline (trim (exportToCSV h pricingData))
           = join comma export_headers
             # map (\<lambda>row. join comma (map (element_text h) (export_cells row))) pricingData"
proof -
  let ?line = "\<lambda>row. join comma (map (element_text h) (export_cells row))"
  let ?lines = "join comma export_headers # map ?line pricingData"
  have free: "\<forall>x \<in> set ?lines. newline \<notin> set x"
    using assms exported_line(1) header_line_free by (auto simp: list_all_iff)
  have last_line: "last ?lines \<noteq> [] \<and> \<not> is_space (last (last ?lines))"
  proof (cases "pricingData = []")
    case True
    then show ?thesis using header_line_ends by simp
  next
    case False
    then have "last ?lines = ?line (last pricingData)"
      by (simp add: last_map)
    moreover from False assms have "exportable (last pricingData)"
      by (simp add: list_all_iff)
    ultimately show ?thesis using exported_line(2,3) by simp
  qed
  have "join newline ?lines \<noteq> []"
    using header_line_ends(1) by (rule join_nonempty)
  moreover have "hd (join newline ?lines) = hd (join comma export_headers)"
    using header_line_ends(1) by (rule hd_join)
  moreover have "last (join newline ?lines) = last (last ?lines)"
    using last_line by (intro last_join) simp_all
  ultimately have "trim (join newline ?lines) = join newline ?lines"
    using header_line_ends(2) last_line by (intro trim_id) simp_all
  moreover have "split newline (join newline ?lines) = ?lines"
    using free by (intro split_join) simp_all
  ultimately show ?thesis by (simp add: exportToCSV_def)
qed

lemma accepted_view:
  assumes "exportable r" and "map (get row) export_headers = row_view r"
  shows "accepted row"
proof -
  from assms(1) obtain a b c where abc: "get r key_size = JStr a" "plain a"
    "get r key_level = JStr b" "plain b" "get r key_customer = JStr c" "plain c"
    unfolding exportable_def by (metis plain_text_cases)
  from assms(2) have "get row key_size = get r key_size" "get row key_level = get r key_level"
    "get row key_customer = get r key_customer"
    by (simp_all add: export_headers_def row_view_def)
  with abc show ?thesis by (simp add: accepted_def plain_def)
qed

text \<open>
  Claim C7, as amended. For a table whose rows have a size, a level and a customer type
  that are non-empty strings without comma, line feed and surrounding white space, and
  whose prices and ids are absent or whole numbers below \<open>10\<^sup>2\<^sup>1\<close> in magnitude,
  importing the exported text gives as many rows in the same order, each with the same
  size, level and customer type and with the same six duration prices, an absent price
  being read as 0 (which is what price resolution makes of it); the id is kept unless it
  is absent or 0.
\<close>

theorem export_import_round_trip:
  assumes "list_all exportable pricingData"
  shows "map (\<lambda>row. map (get row) export_headers) (parsed_rows (exportToCSV h pricingData))
           = map row_view pricingData"
proof -
  let ?line = "\<lambda>row. join comma (map (element_text h) (export_cells row))"
  have headers: "split comma (join comma export_headers) = export_headers"
    using export_headers_free by (intro split_join) (simp_all add: export_headers_def)
  have rows: "parsed_rows (exportToCSV h pricingData)
      = filter accepted (map (parse_line export_headers) (map ?line pricingData))"
    by (simp add: parsed_rows_filter exported_lines [OF assms] headers)
  have each: "map (get (parse_line export_headers (?line r))) export_headers = row_view r"
    if "r \<in> set pricingData" for r
    using that assms parse_exported_line by (simp add: list_all_iff)
  have "accepted (parse_line export_headers (?line r))" if "r \<in> set pricingData" for r
  proof (rule accepted_view)
    from that assms show "exportable r" by (simp add: list_all_iff)
    from that show "map (get (parse_line export_headers (?line r))) export_headers = row_view r"
      by (rule each)
  qed
  then have "filter accepted (map (parse_line export_headers) (map ?line pricingData))
      = map (parse_line export_headers) (map ?line pricingData)"
    by (simp add: filter_id_conv)
  with rows each show ?thesis by simp
qed


lemmas export_simps = exportToCSV_def export_cells_def export_headers_def val_or_def
  Number_toString_def int_text_def decimal.simps newline_def parsed_rows_def

theorem export_import_round_trip_witness:
  "list_all exportable getFallbackData
   \<and> map (\<lambda>row. map (get row) export_headers)
         (parsed_rows (exportToCSV example_host getFallbackData))
       = [[JStr (ascii ''13x5''), JStr (ascii ''A''), JStr customer_standard,
           JNum (Num 24000), JNum (Num 23000), JNum (Num 22000), JNum (Num 21000),
           JNum (Num 20000), JNum (Num 800), JNum (Num 1)],
          [JStr (ascii ''12x4''), JStr (ascii ''A''), JStr customer_standard,
           JNum (Num 21000), JNum (Num 20000), JNum (Num 19000), JNum (Num 18000),
           JNum (Num 17000), JNum (Num 700), JNum (Num 2)]]"
proof -
  have e: "list_all exportable getFallbackData"
    by (simp add: exportable_def plain_def getFallbackData_def get_def key_defs ascii_def
        customer_standard_def price_headers_def comma_def newline_def trim_def is_space_def)
  have "map row_view getFallbackData
       = [[JStr (ascii ''13x5''), JStr (ascii ''A''), JStr customer_standard,
           JNum (Num 24000), JNum (Num 23000), JNum (Num 22000), JNum (Num 21000),
           JNum (Num 20000), JNum (Num 800), JNum (Num 1)],
          [JStr (ascii ''12x4''), JStr (ascii ''A''), JStr customer_standard,
           JNum (Num 21000), JNum (Num 20000), JNum (Num 19000), JNum (Num 18000),
           JNum (Num 17000), JNum (Num 700), JNum (Num 2)]]"
    by (simp add: row_view_def getFallbackData_def get_def key_defs price_headers_def)
  with export_import_round_trip [OF e, of example_host] e show ?thesis by simp
qed

text \<open>
  Claim C7 as stated fails on a row whose size contains a comma: the exported line has
  eleven cells, and the import reads the size 13, the level 5, the customer type A and
  the day price 0 where the table has 13,5 and A and the ordinary customer and 800.
\<close>

theorem export_import_counterexample:
  "get (parsed_rows (exportToCSV example_host [comma_row]) ! 0) key_size
     \<noteq> get comma_row key_size
   \<and> length (parsed_rows (exportToCSV example_host [comma_row])) = 1
   \<and> get (parsed_rows (exportToCSV example_host [comma_row]) ! 0) key_size = JStr (ascii ''13'')
   \<and> get comma_row key_size = JStr (ascii ''13,5'')
   \<and> get (parsed_rows (exportToCSV example_host [comma_row]) ! 0) key_level = JStr (ascii ''5'')
   \<and> get comma_row key_level = JStr (ascii ''A'')
   \<and> get (parsed_rows (exportToCSV example_host [comma_row]) ! 0) key_oneDay = JNum (Num 0)
   \<and> get comma_row key_oneDay = JNum (Num 800)"
  by (simp add: export_simps import_simps comma_row_def customer_standard_def Let_def)

end
